theory Spec2Isabelle
  imports Complex_Main "HOL-Library.Log_Nat" "HOL-Library.Sublist"
begin

section \<open>JavaScript values\<close>

text \<open>
  The module \<^verbatim>\<open>server/database.js\<close> receives plain JavaScript values in its arguments
  and hands JavaScript values to the connection pool as bound parameters. The values
  modelled are the primitive ones: \<^verbatim>\<open>undefined\<close>, \<^verbatim>\<open>null\<close>, booleans, numbers and strings.
  Reading a key that an object does not have gives \<^verbatim>\<open>undefined\<close>, so an absent option is
  a field holding \<open>JUndefined\<close>.

  A number is an IEEE-754 double: not-a-number, an infinity with its sign, or a finite
  value as a sign (\<open>True\<close> for negative) and a non-negative magnitude; \<open>Finite True 0\<close>
  is the negative zero.
\<close>

datatype jsnum = NaN | Infinity bool | Finite bool rat

datatype jsval = JUndefined | JNull | JBool bool | JNum jsnum | JStr string

definition js_int :: "int \<Rightarrow> jsnum" where
  "js_int k = Finite (k < 0) (of_int \<bar>k\<bar>)"

subsection \<open>Multiplication of doubles\<close>

definition pow2 :: "int \<Rightarrow> rat" where
  "pow2 e = (if 0 \<le> e then 2 ^ nat e else 1 / 2 ^ nat (- e))"

text \<open>For \<open>0 < a\<close>, the exponent \<open>k\<close> with \<open>2 ^ k \<le> a < 2 ^ (k + 1)\<close>.\<close>

definition floor_log2 :: "rat \<Rightarrow> int" where
  "floor_log2 a = (if 1 \<le> a then bitlen \<lfloor>a\<rfloor> - 1 else - bitlen (\<lceil>1 / a\<rceil> - 1))"

definition round_half_even :: "rat \<Rightarrow> int" where
  "round_half_even q =
     (let f = \<lfloor>q\<rfloor>; r = q - of_int f
      in if r < 1 / 2 then f else if 1 / 2 < r then f + 1 else if even f then f else f + 1)"

text \<open>
  Rounding of an exact magnitude to the nearest double, ties to even: 53 significant
  bits, the smallest spacing \<open>2 ^ - 1074\<close>, and an infinity from \<open>2 ^ 1024\<close> on.
\<close>

definition round_double :: "bool \<Rightarrow> rat \<Rightarrow> jsnum" where
  "round_double s a =
     (if a = 0 then Finite s 0
      else let e = max (floor_log2 a - 52) (- 1074);
               n = round_half_even (a / pow2 e);
               v = of_int n * pow2 e
           in if 2 ^ 1024 \<le> v then Infinity s else Finite s v)"

text \<open>The operator \<^verbatim>\<open>*\<close> on two numbers.\<close>

fun js_mul :: "jsnum \<Rightarrow> jsnum \<Rightarrow> jsnum" where
  "js_mul NaN y = NaN"
| "js_mul x NaN = NaN"
| "js_mul (Infinity s) (Infinity t) = Infinity (s \<noteq> t)"
| "js_mul (Infinity s) (Finite t b) = (if b = 0 then NaN else Infinity (s \<noteq> t))"
| "js_mul (Finite s a) (Infinity t) = (if a = 0 then NaN else Infinity (s \<noteq> t))"
| "js_mul (Finite s a) (Finite t b) = round_double (s \<noteq> t) (a * b)"

subsection \<open>Conversions\<close>

text \<open>
  Two conversions of the language runtime are taken as parameters: the reading of a
  string as a number (\<^verbatim>\<open>StringToNumber\<close>, the numeric-literal grammar) and the printing of
  a number (\<^verbatim>\<open>Number::toString\<close>, the shortest digits that read back). The module only
  passes their results on.
\<close>

record js_runtime =
  StringToNumber :: "string \<Rightarrow> jsnum"
  NumberToString :: "jsnum \<Rightarrow> string"

text \<open>The test of \<^verbatim>\<open>if (v)\<close>: only \<^verbatim>\<open>undefined\<close>, \<^verbatim>\<open>null\<close>, \<^verbatim>\<open>false\<close>, the zeros,
  \<^verbatim>\<open>NaN\<close> and the empty string are falsy.\<close>

fun ToBoolean :: "jsval \<Rightarrow> bool" where
  "ToBoolean JUndefined = False"
| "ToBoolean JNull = False"
| "ToBoolean (JBool b) = b"
| "ToBoolean (JNum NaN) = False"
| "ToBoolean (JNum (Infinity s)) = True"
| "ToBoolean (JNum (Finite s m)) = (m \<noteq> 0)"
| "ToBoolean (JStr s) = (s \<noteq> [])"

text \<open>The call \<^verbatim>\<open>Number(v)\<close>.\<close>

fun ToNumber :: "js_runtime \<Rightarrow> jsval \<Rightarrow> jsnum" where
  "ToNumber rt JUndefined = NaN"
| "ToNumber rt JNull = Finite False 0"
| "ToNumber rt (JBool b) = (if b then Finite False 1 else Finite False 0)"
| "ToNumber rt (JNum n) = n"
| "ToNumber rt (JStr s) = StringToNumber rt s"

text \<open>The substitution \<^verbatim>\<open>${v}\<close> of a template literal.\<close>

fun ToString :: "js_runtime \<Rightarrow> jsval \<Rightarrow> string" where
  "ToString rt JUndefined = ''undefined''"
| "ToString rt JNull = ''null''"
| "ToString rt (JBool b) = (if b then ''true'' else ''false'')"
| "ToString rt (JNum n) = NumberToString rt n"
| "ToString rt (JStr s) = s"

text \<open>The length of an array printed in a template literal: its decimal digits.\<close>

definition digit_char :: "nat \<Rightarrow> char" where
  "digit_char d = ''0123456789'' ! d"

fun show_nat :: "nat \<Rightarrow> string" where
  "show_nat n = (if n < 10 then [digit_char n] else show_nat (n div 10) @ [digit_char (n mod 10)])"

declare show_nat.simps [simp del]

section \<open>The store\<close>

text \<open>
  Every operation of the module sends one statement to the connection pool and reshapes
  the answer: \<^verbatim>\<open>pool.query(text, params).then(res => ...)\<close>. The answer is a rejection
  with the error of the store, or a result whose \<^verbatim>\<open>rows\<close> is the list of rows returned.
\<close>

datatype store_error = StoreError string

type_synonym 'a promise = "store_error + 'a"

text \<open>\<^verbatim>\<open>p.then(f)\<close>: a resolved value is passed through \<open>f\<close>, a rejection is kept.\<close>

definition promise_then :: "'a promise \<Rightarrow> ('a \<Rightarrow> 'b) \<Rightarrow> 'b promise" where
  "promise_then p f = (case p of Inl e \<Rightarrow> Inl e | Inr x \<Rightarrow> Inr (f x))"

text \<open>\<^verbatim>\<open>res.rows[0]\<close>: the first row, or \<^verbatim>\<open>undefined\<close> (the absent value) for no row.\<close>

definition rows0 :: "'r list \<Rightarrow> 'r option" where
  "rows0 rows = (case rows of [] \<Rightarrow> None | r # _ \<Rightarrow> Some r)"

text \<open>
  An \<^verbatim>\<open>INSERT\<close> answers with the inserted row when its text asks for it with a
  \<^verbatim>\<open>RETURNING\<close> clause, and with no row otherwise.
\<close>

fun contains :: "string \<Rightarrow> string \<Rightarrow> bool" where
  "contains pat [] = (pat = [])"
| "contains pat (c # cs) = (prefix pat (c # cs) \<or> contains pat cs)"

definition returned :: "string \<Rightarrow> 'r \<Rightarrow> 'r list" where
  "returned statement row = (if contains ''RETURNING'' statement then [row] else [])"

text \<open>
  The columns named by an \<^verbatim>\<open>INSERT\<close> and the values given for them: the items, separated
  by commas, between an opening text and the next closing parenthesis.
\<close>

fun drop_until :: "string \<Rightarrow> string \<Rightarrow> string" where
  "drop_until pat [] = []"
| "drop_until pat (c # cs) =
     (if prefix pat (c # cs) then drop (length pat) (c # cs) else drop_until pat cs)"

definition split_commas :: "string \<Rightarrow> string list" where
  "split_commas s = foldr (\<lambda>c acc. if c = CHR '','' then [] # acc else (c # hd acc) # tl acc) s [[]]"

definition trim_left :: "string \<Rightarrow> string" where
  "trim_left s = dropWhile (\<lambda>c. c = CHR '' '' \<or> c = CHR ''\<newline>'') s"

definition items_after :: "string \<Rightarrow> string \<Rightarrow> string list" where
  "items_after opening s =
     map trim_left (split_commas (takeWhile (\<lambda>c. c \<noteq> CHR '')'') (drop_until opening s)))"

subsection \<open>Tables\<close>

text \<open>
  Modelled from the spec: the schema of the store is not part of the module. The tables
  and columns are those of the data model: users, properties (the cost is in minor
  currency units), reservations and property reviews. A table is the list of its rows
  in the order in which the store scans them; dates are day numbers; the columns
  \<^verbatim>\<open>id\<close> are the primary keys.

  The statements with a fixed text are given by what they compute on these tables. An
  argument of the module that is bound to such a statement is taken at the type of the
  column it meets: an id as a whole number, an email as a string. Reading the tables
  always succeeds here; a rejection comes from a constraint of a table or from a
  parameter that the store refuses.
\<close>

record user_row =
  u_id :: int
  u_name :: string
  u_email :: string
  u_password :: string

record property_row =
  p_id :: int
  p_owner_id :: int
  p_title :: string
  p_description :: string
  p_thumbnail_photo_url :: string
  p_cover_photo_url :: string
  p_cost_per_night :: int
  p_street :: string
  p_city :: string
  p_province :: string
  p_post_code :: string
  p_country :: string
  p_parking_spaces :: int
  p_number_of_bathrooms :: int
  p_number_of_bedrooms :: int
  p_active :: bool

record reservation_row =
  r_id :: int
  r_guest_id :: int
  r_property_id :: int
  r_start_date :: int
  r_end_date :: int

record review_row =
  v_id :: int
  v_property_id :: int
  v_rating :: int

record db =
  users :: "user_row list"
  properties :: "property_row list"
  reservations :: "reservation_row list"
  property_reviews :: "review_row list"

text \<open>The key that the store gives to a new row: one more than every key in use.\<close>

definition fresh_id :: "int list \<Rightarrow> int" where
  "fresh_id ids = fold max ids 0 + 1"

text \<open>Modelled from the spec: the email of a user is unique in the table of users.\<close>

definition email_unique :: "db \<Rightarrow> string \<Rightarrow> bool" where
  "email_unique d e = (e \<notin> set (map u_email (users d)))"

text \<open>Modelled from the spec: the owner of a property references a user.\<close>

definition owner_exists :: "db \<Rightarrow> int \<Rightarrow> bool" where
  "owner_exists d i = (i \<in> set (map u_id (users d)))"

section \<open>Users\<close>





text \<open>
  The statement of \<^verbatim>\<open>addUser(user)\<close>, sent with the parameters
  \<^verbatim>\<open>[user.name, user.email, user.password]\<close>. The store rejects a second row with the
  same email and leaves the table as it was.
\<close>

record user =
  name :: string
  email :: string
  password :: string

definition addUser_statement :: string where
  "addUser_statement =
     ''\<newline>  INSERT INTO users ('' @
     ''\<newline>    name, email, password)'' @
     ''\<newline>    VALUES ('' @
     ''\<newline>      $1, $2, $3);'' @
     ''\<newline>  ''"

definition insert_user ::
  "db \<Rightarrow> string \<Rightarrow> string \<Rightarrow> string \<Rightarrow> string \<Rightarrow> user_row list promise \<times> db" where
  "insert_user d statement n e p =
     (if \<not> email_unique d e
      then (Inl (StoreError ''duplicate key value violates unique constraint''), d)
      else
        (let row = \<lparr>u_id = fresh_id (map u_id (users d)), u_name = n, u_email = e,
                     u_password = p\<rparr>
         in (Inr (returned statement row), d\<lparr>users := users d @ [row]\<rparr>)))"

definition addUser :: "db \<Rightarrow> 'a user_scheme \<Rightarrow> user_row option promise \<times> db" where
  "addUser d user =
     (let (res, d') = insert_user d addUser_statement (name user) (email user) (password user)
      in (promise_then res rows0, d'))"

section \<open>Reservations\<close>

text \<open>
  The statement of \<^verbatim>\<open>getAllReservations(guest_id, limit = 10)\<close>, with the parameters
  \<^verbatim>\<open>[guest_id, limit]\<close>:
  \<^verbatim>\<open>
      SELECT properties.*, reservations.*, avg(rating) as average_rating
      FROM reservations
      JOIN properties ON reservations.property_id = properties.id
      JOIN property_reviews ON properties.id = property_reviews.property_id
      WHERE reservations.guest_id = $1
      GROUP BY properties.id, reservations.id
      ORDER BY reservations.start_date
      LIMIT $2;
  \<close>
  The two arguments are bound as they come. The pool sends \<^verbatim>\<open>null\<close> and \<^verbatim>\<open>undefined\<close> as
  the null of the store and every other value as its text; the store reads the first
  text as a value of the column \<^verbatim>\<open>guest_id\<close> and the second as a 64-bit integer, and
  rejects a text that it cannot read. How the store reads a text as an integer, and
  how it rounds and writes an average, is its own matter: these are parameters.
\<close>

record 'n store_functions =
  id_of_text :: "string \<Rightarrow> int option"
  int8_of_text :: "string \<Rightarrow> int option"
  avg_numeric :: "int list \<Rightarrow> 'n"

definition bind_text :: "js_runtime \<Rightarrow> jsval \<Rightarrow> string option" where
  "bind_text rt v = (if v = JNull \<or> v = JUndefined then None else Some (ToString rt v))"

text \<open>The guest as the store reads it: the null, or a value of the column.\<close>

definition bind_guest :: "js_runtime \<Rightarrow> 'n store_functions \<Rightarrow> jsval \<Rightarrow> int option promise" where
  "bind_guest rt st v =
     (case bind_text rt v of
        None \<Rightarrow> Inr None
      | Some t \<Rightarrow>
          (case id_of_text st t of
             None \<Rightarrow> Inl (StoreError ''invalid input syntax for type integer'')
           | Some g \<Rightarrow> Inr (Some g)))"

text \<open>
  The limit as the store reads it: a null limit is no limit, a negative one is
  rejected.
\<close>

definition bind_limit :: "js_runtime \<Rightarrow> 'n store_functions \<Rightarrow> jsval \<Rightarrow> nat option promise" where
  "bind_limit rt st v =
     (case bind_text rt v of
        None \<Rightarrow> Inr None
      | Some t \<Rightarrow>
          (case int8_of_text st t of
             None \<Rightarrow> Inl (StoreError ''invalid input syntax for type bigint'')
           | Some n \<Rightarrow>
               if n < 0 then Inl (StoreError ''LIMIT must not be negative'')
               else Inr (Some (nat n))))"

text \<open>
  Both joins are inner joins: a row of the join is a reservation, its property and one
  review of that property. The grouping columns are the primary keys of the two tables,
  so a group is one reservation with its property, together with all reviews of the
  property, and it exists only when there is at least one review. A comparison with
  the null holds for no row. The groups are ordered by the start date of the
  reservation, groups with the same date staying in the order of the scan, and the
  first \<^verbatim>\<open>limit\<close> of them are returned, or all of them when there is no limit. A record
  of the result carries the columns of the property, the columns of the reservation
  and the average rating.
\<close>

record 'n reservation_result =
  of_property :: property_row
  of_reservation :: reservation_row
  average_rating :: 'n

definition ratings_of :: "db \<Rightarrow> property_row \<Rightarrow> int list" where
  "ratings_of d p = map v_rating (filter (\<lambda>v. p_id p = v_property_id v) (property_reviews d))"

definition joined_groups :: "'n store_functions \<Rightarrow> db \<Rightarrow> int \<Rightarrow> 'n reservation_result list" where
  "joined_groups st d guest =
     concat (map (\<lambda>r.
       concat (map (\<lambda>p.
         if r_property_id r = p_id p \<and> ratings_of d p \<noteq> [] \<and> r_guest_id r = guest
         then [\<lparr>of_property = p, of_reservation = r,
                 average_rating = avg_numeric st (ratings_of d p)\<rparr>]
         else [])
       (properties d)))
     (reservations d))"

definition select_reservations ::
  "'n store_functions \<Rightarrow> db \<Rightarrow> int option promise \<Rightarrow> nat option promise
     \<Rightarrow> 'n reservation_result list promise" where
  "select_reservations st d guest limit =
     (case guest of
        Inl e \<Rightarrow> Inl e
      | Inr g \<Rightarrow>
          (case limit of
             Inl e \<Rightarrow> Inl e
           | Inr l \<Rightarrow>
               (let groups = (case g of None \<Rightarrow> [] | Some i \<Rightarrow> joined_groups st d i);
                    ordered = sort_key (\<lambda>x. r_start_date (of_reservation x)) groups
                in Inr (case l of None \<Rightarrow> ordered | Some n \<Rightarrow> take n ordered))))"

text \<open>The default value of the second argument applies when it is \<^verbatim>\<open>undefined\<close>.\<close>

definition getAllReservations ::
  "js_runtime \<Rightarrow> 'n store_functions \<Rightarrow> db \<Rightarrow> jsval \<Rightarrow> jsval \<Rightarrow> 'n reservation_result list promise" where
  "getAllReservations rt st d guest_id limit0 =
     (let limit = (if limit0 = JUndefined then JNum (js_int 10) else limit0)
      in promise_then
           (select_reservations st d (bind_guest rt st guest_id) (bind_limit rt st limit))
           (\<lambda>rows. rows))"

section \<open>Property creation\<close>

text \<open>
  The statement of \<^verbatim>\<open>addProperty(property)\<close> names fifteen columns and fifteen values:
  the placeholders \<^verbatim>\<open>$1\<close> to \<^verbatim>\<open>$14\<close> and the literal \<^verbatim>\<open>true\<close> for the column
  \<^verbatim>\<open>active\<close>. The fourteen parameters are read from the fourteen keys of the argument,
  in the order of the columns. The store rejects a row whose owner is not a user.
\<close>

definition addProperty_statement :: string where
  "addProperty_statement =
     ''\<newline>  INSERT INTO properties ('' @
     ''\<newline>    owner_id, title, description, thumbnail_photo_url, cover_photo_url, '' @
     ''cost_per_night, street, city, province, post_code, country, parking_spaces, '' @
     ''number_of_bathrooms, number_of_bedrooms, active)'' @
     ''\<newline>  VALUES ('' @
     ''\<newline>      $1, $2, $3, $4, $5, $6, $7, $8, $9, $10, $11, $12, $13, $14, true)'' @
     ''\<newline>  RETURNING *;'' @
     ''\<newline>  ''"

record property =
  owner_id :: int
  title :: string
  description :: string
  thumbnail_photo_url :: string
  cover_photo_url :: string
  cost_per_night :: int
  street :: string
  city :: string
  province :: string
  post_code :: string
  country :: string
  parking_spaces :: int
  number_of_bathrooms :: int
  number_of_bedrooms :: int

text \<open>An argument that carries a key \<^verbatim>\<open>active\<close> of its own; the module does not read it.\<close>

record property_with_active = property +
  active :: bool

definition insert_property ::
  "db \<Rightarrow> string \<Rightarrow> int \<Rightarrow> string \<Rightarrow> string \<Rightarrow> string \<Rightarrow> string \<Rightarrow> int \<Rightarrow> string \<Rightarrow> string
     \<Rightarrow> string \<Rightarrow> string \<Rightarrow> string \<Rightarrow> int \<Rightarrow> int \<Rightarrow> int \<Rightarrow> property_row list promise \<times> db" where
  "insert_property d statement a1 a2 a3 a4 a5 a6 a7 a8 a9 a10 a11 a12 a13 a14 =
     (if \<not> owner_exists d a1
      then (Inl (StoreError ''insert or update violates foreign key constraint''), d)
      else
        (let row = \<lparr>p_id = fresh_id (map p_id (properties d)), p_owner_id = a1, p_title = a2,
                     p_description = a3, p_thumbnail_photo_url = a4, p_cover_photo_url = a5,
                     p_cost_per_night = a6, p_street = a7, p_city = a8, p_province = a9,
                     p_post_code = a10, p_country = a11, p_parking_spaces = a12,
                     p_number_of_bathrooms = a13, p_number_of_bedrooms = a14, p_active = True\<rparr>
         in (Inr (returned statement row), d\<lparr>properties := properties d @ [row]\<rparr>)))"

definition addProperty :: "db \<Rightarrow> 'a property_scheme \<Rightarrow> property_row option promise \<times> db" where
  "addProperty d property =
     (let (res, d') =
            insert_property d addProperty_statement
              (property.owner_id property)
              (property.title property)
              (property.description property)
              (property.thumbnail_photo_url property)
              (property.cover_photo_url property)
              (property.cost_per_night property)
              (property.street property)
              (property.city property)
              (property.province property)
              (property.post_code property)
              (property.country property)
              (property.parking_spaces property)
              (property.number_of_bathrooms property)
              (property.number_of_bedrooms property)
      in (promise_then res rows0, d'))"

section \<open>Property search: the query builder\<close>

text \<open>
  The options object is read at five keys only. \<^verbatim>\<open>getAllProperties(options, limit = 10)\<close>
  starts from an empty parameter list and the base clause, appends a predicate and a
  parameter for every option that passes the test \<^verbatim>\<open>if (options.key)\<close>, and ends with the
  grouping, the ordering and the limit.
\<close>

record options =
  city :: jsval
  owner_id :: jsval
  minimum_price_per_night :: jsval
  maximum_price_per_night :: jsval
  minimum_rating :: jsval

definition base_clause :: string where
  "base_clause =
     ''\<newline>  SELECT properties.*, avg(property_reviews.rating) as average_rating'' @
     ''\<newline>  FROM properties'' @
     ''\<newline>  LEFT JOIN property_reviews ON properties.id = property_id'' @
     ''\<newline>  WHERE 1=1'' @
     ''\<newline>  ''"

definition final_clause :: "nat \<Rightarrow> string" where
  "final_clause n =
     ''\<newline>  GROUP BY properties.id'' @
     ''\<newline>  ORDER BY cost_per_night'' @
     ''\<newline>  LIMIT $'' @ show_nat n @ '';'' @
     ''\<newline>  ''"

text \<open>The default value of the second argument applies when it is \<^verbatim>\<open>undefined\<close>.\<close>

definition default_limit :: "jsval \<Rightarrow> jsval" where
  "default_limit limit = (if limit = JUndefined then JNum (js_int 10) else limit)"

text \<open>The pair is \<open>(queryString, queryParams)\<close> as handed to \<^verbatim>\<open>pool.query\<close>.\<close>

definition getAllProperties_query ::
  "js_runtime \<Rightarrow> 'a options_scheme \<Rightarrow> jsval \<Rightarrow> string \<times> jsval list" where
  "getAllProperties_query rt options limit0 =
     (let limit = default_limit limit0;
          queryParams = [];
          queryString = base_clause;
          (queryParams, queryString) =
            (if ToBoolean (city options) then
               (let queryParams = queryParams @ [JStr (''%'' @ ToString rt (city options) @ ''%'')]
                in (queryParams, queryString @ ''AND city ILIKE $'' @ show_nat (length queryParams) @ '' ''))
             else (queryParams, queryString));
          (queryParams, queryString) =
            (if ToBoolean (owner_id options) then
               (let queryParams = queryParams @ [JNum (ToNumber rt (owner_id options))]
                in (queryParams, queryString @ ''AND owner_id = $'' @ show_nat (length queryParams) @ '' ''))
             else (queryParams, queryString));
          (queryParams, queryString) =
            (if ToBoolean (minimum_price_per_night options) then
               (let queryParams = queryParams @
                      [JNum (js_mul (js_int 100) (ToNumber rt (minimum_price_per_night options)))]
                in (queryParams, queryString @ ''AND cost_per_night >= $'' @ show_nat (length queryParams) @ '' ''))
             else (queryParams, queryString));
          (queryParams, queryString) =
            (if ToBoolean (maximum_price_per_night options) then
               (let queryParams = queryParams @
                      [JNum (js_mul (js_int 100) (ToNumber rt (maximum_price_per_night options)))]
                in (queryParams, queryString @ ''AND cost_per_night <= $'' @ show_nat (length queryParams) @ '' ''))
             else (queryParams, queryString));
          (queryParams, queryString) =
            (if ToBoolean (minimum_rating options) then
               (let queryParams = queryParams @ [JNum (ToNumber rt (minimum_rating options))]
                in (queryParams, queryString @ ''AND property_reviews.rating >= $'' @ show_nat (length queryParams) @ '' ''))
             else (queryParams, queryString));
          queryParams = queryParams @ [limit];
          queryString = queryString @ final_clause (length queryParams)
      in (queryString, queryParams))"

text \<open>
  The pool is the module's only collaborator: it takes the statement and its parameters
  and answers with an error (the promise is rejected) or with the rows of the result.
  \<^verbatim>\<open>.then(res => res.rows)\<close> passes the rows on and leaves a rejection as it is.
\<close>

type_synonym ('s, 'r) pool = "string \<times> jsval list \<Rightarrow> 's \<Rightarrow> (store_error + 'r list) \<times> 's"

definition getAllProperties ::
  "js_runtime \<Rightarrow> ('s, 'r) pool \<Rightarrow> 'a options_scheme \<Rightarrow> jsval \<Rightarrow> 's \<Rightarrow> (store_error + 'r list) \<times> 's" where
  "getAllProperties rt pool options limit s = pool (getAllProperties_query rt options limit) s"

subsection \<open>The builder as a table of filters\<close>

text \<open>
  The five conditional blocks of \<^verbatim>\<open>getAllProperties\<close> in the order of the source: the value
  tested, the text appended up to the placeholder sign, and the parameter pushed.
\<close>

definition option_filters :: "js_runtime \<Rightarrow> 'a options_scheme \<Rightarrow> (jsval \<times> string \<times> jsval) list" where
  "option_filters rt options =
     [(city options, ''AND city ILIKE $'', JStr (''%'' @ ToString rt (city options) @ ''%'')),
      (owner_id options, ''AND owner_id = $'', JNum (ToNumber rt (owner_id options))),
      (minimum_price_per_night options, ''AND cost_per_night >= $'',
         JNum (js_mul (js_int 100) (ToNumber rt (minimum_price_per_night options)))),
      (maximum_price_per_night options, ''AND cost_per_night <= $'',
         JNum (js_mul (js_int 100) (ToNumber rt (maximum_price_per_night options)))),
      (minimum_rating options, ''AND property_reviews.rating >= $'',
         JNum (ToNumber rt (minimum_rating options)))]"

text \<open>
  The text of a list of filters when \<open>k\<close> parameters are already bound: each filter
  carries the index of its own parameter and a closing blank.
\<close>

fun render_filters :: "nat \<Rightarrow> (jsval \<times> string \<times> jsval) list \<Rightarrow> string" where
  "render_filters k [] = []"
| "render_filters k ((x, t, v) # fs) = t @ show_nat (Suc k) @ '' '' @ render_filters (Suc k) fs"

text \<open>The filters whose option passes the test \<^verbatim>\<open>if (options.key)\<close>.\<close>

definition active_filters :: "js_runtime \<Rightarrow> 'a options_scheme \<Rightarrow> (jsval \<times> string \<times> jsval) list" where
  "active_filters rt options = filter (\<lambda>(x, t, v). ToBoolean x) (option_filters rt options)"

text \<open>
  The reading of the specification's words: an option is present when the key holds a
  value, and every present option contributes its predicate.
\<close>

definition present :: "jsval \<Rightarrow> bool" where
  "present v = (v \<noteq> JUndefined)"

definition present_filters :: "js_runtime \<Rightarrow> 'a options_scheme \<Rightarrow> (jsval \<times> string \<times> jsval) list" where
  "present_filters rt options = filter (\<lambda>(x, t, v). present x) (option_filters rt options)"

subsection \<open>Placeholders of a statement\<close>

text \<open>
  The placeholders \<^verbatim>\<open>$n\<close> that occur in a statement, from left to right: the number
  written in decimal digits after each dollar sign.
\<close>

definition is_digit :: "char \<Rightarrow> bool" where
  "is_digit c = (c \<in> set ''0123456789'')"

definition digit_value :: "char \<Rightarrow> nat" where
  "digit_value c = length (takeWhile (\<lambda>d. d \<noteq> c) ''0123456789'')"

definition digits_value :: "string \<Rightarrow> nat" where
  "digits_value ds = foldl (\<lambda>a d. 10 * a + digit_value d) 0 ds"

fun placeholders :: "string \<Rightarrow> nat list" where
  "placeholders [] = []"
| "placeholders (c # cs) =
     (if c = CHR ''$'' then digits_value (takeWhile is_digit cs) # placeholders cs
      else placeholders cs)"

text \<open>A filter text holds one dollar sign, at its end.\<close>

definition filter_text_ok :: "string \<Rightarrow> bool" where
  "filter_text_ok t = (t \<noteq> [] \<and> last t = CHR ''$'' \<and> CHR ''$'' \<notin> set (butlast t))"

subsection \<open>A runtime for the examples\<close>

text \<open>
  A runtime that agrees with the language on strings of decimal digits and on
  non-negative whole numbers below \<open>10 ^ 21\<close>; it is used for concrete inputs only.
\<close>

definition example_runtime :: js_runtime where
  "example_runtime =
     \<lparr>StringToNumber =
        (\<lambda>s. if list_all is_digit s then round_double False (of_nat (digits_value s)) else NaN),
      NumberToString =
        (\<lambda>n. case n of
           Finite False m \<Rightarrow> if of_int \<lfloor>m\<rfloor> = m then show_nat (nat \<lfloor>m\<rfloor>) else ''NaN''
         | _ \<Rightarrow> ''NaN'')\<rparr>"

subsection \<open>Example inputs\<close>

definition empty_city_options :: options where
  "empty_city_options =
     \<lparr>city = JStr '''', owner_id = JUndefined, minimum_price_per_night = JUndefined,
      maximum_price_per_night = JUndefined, minimum_rating = JUndefined\<rparr>"

definition falsy_options :: options where
  "falsy_options =
     \<lparr>city = JStr '''', owner_id = JNum (js_int 0), minimum_price_per_night = JNum (js_int 0),
      maximum_price_per_night = JStr '''', minimum_rating = JNum (js_int 0)\<rparr>"

definition zero_rating_options :: options where
  "zero_rating_options =
     \<lparr>city = JUndefined, owner_id = JUndefined, minimum_price_per_night = JUndefined,
      maximum_price_per_night = JUndefined, minimum_rating = JNum (Finite False 0)\<rparr>"

definition four_rating_options :: options where
  "four_rating_options =
     \<lparr>city = JUndefined, owner_id = JUndefined, minimum_price_per_night = JUndefined,
      maximum_price_per_night = JUndefined, minimum_rating = JNum (Finite False 4)\<rparr>"

definition string_zero_options :: options where
  "string_zero_options =
     \<lparr>city = JUndefined, owner_id = JStr ''0'', minimum_price_per_night = JStr ''0'',
      maximum_price_per_night = JUndefined, minimum_rating = JStr ''0''\<rparr>"


definition price_range_options :: options where
  "price_range_options =
     \<lparr>city = JUndefined, owner_id = JUndefined, minimum_price_per_night = JNum (js_int 50),
      maximum_price_per_night = JNum (js_int 100), minimum_rating = JUndefined\<rparr>"

definition huge_price_options :: options where
  "huge_price_options =
     \<lparr>city = JUndefined, owner_id = JUndefined,
      minimum_price_per_night = JNum (js_int 9007199254740991),
      maximum_price_per_night = JUndefined, minimum_rating = JUndefined\<rparr>"

definition zero_price_options :: options where
  "zero_price_options =
     \<lparr>city = JUndefined, owner_id = JUndefined, minimum_price_per_night = JUndefined,
      maximum_price_per_night = JNum (js_int 0), minimum_rating = JUndefined\<rparr>"

text \<open>A small store, an argument for each insertion, and the rows expected.\<close>

definition example_property :: "int \<Rightarrow> int \<Rightarrow> property_row" where
  "example_property i owner =
     \<lparr>p_id = i, p_owner_id = owner, p_title = ''Cabin'', p_description = ''Quiet'',
      p_thumbnail_photo_url = ''t.png'', p_cover_photo_url = ''c.png'', p_cost_per_night = 7500,
      p_street = ''1 Main St'', p_city = ''Vancouver'', p_province = ''BC'',
      p_post_code = ''V5K'', p_country = ''Canada'', p_parking_spaces = 1,
      p_number_of_bathrooms = 1, p_number_of_bedrooms = 2, p_active = True\<rparr>"

definition example_reservation :: "int \<Rightarrow> int \<Rightarrow> int \<Rightarrow> int \<Rightarrow> reservation_row" where
  "example_reservation i guest prop start =
     \<lparr>r_id = i, r_guest_id = guest, r_property_id = prop, r_start_date = start,
      r_end_date = start + 3\<rparr>"

definition example_db :: db where
  "example_db =
     \<lparr>users =
        [\<lparr>u_id = 1, u_name = ''Ann'', u_email = ''ann@x.com'', u_password = ''pw1''\<rparr>,
         \<lparr>u_id = 2, u_name = ''Bob'', u_email = ''bob@x.com'', u_password = ''pw2''\<rparr>],
      properties = [example_property 1 2, example_property 2 2, example_property 3 2],
      reservations =
        [example_reservation 1 1 1 30, example_reservation 2 1 2 10,
         example_reservation 3 1 3 5, example_reservation 4 2 1 1,
         example_reservation 5 1 1 20],
      property_reviews =
        [\<lparr>v_id = 1, v_property_id = 1, v_rating = 4\<rparr>,
         \<lparr>v_id = 2, v_property_id = 1, v_rating = 5\<rparr>,
         \<lparr>v_id = 3, v_property_id = 2, v_rating = 3\<rparr>]\<rparr>"

text \<open>
  A store for the examples: it reads a text of decimal digits, with a minus sign or
  without, within the range of the type, and keeps an average as the sum and the
  number of the ratings.
\<close>

definition parse_decimal :: "string \<Rightarrow> int option" where
  "parse_decimal s =
     (case s of
        [] \<Rightarrow> None
      | c # cs \<Rightarrow>
          if c = CHR ''-''
          then (if cs \<noteq> [] \<and> list_all is_digit cs then Some (- int (digits_value cs)) else None)
          else (if list_all is_digit s then Some (int (digits_value s)) else None))"

definition in_range :: "int \<Rightarrow> int \<Rightarrow> int option \<Rightarrow> int option" where
  "in_range lo hi v = (case v of None \<Rightarrow> None | Some i \<Rightarrow> if lo \<le> i \<and> i \<le> hi then Some i else None)"

definition example_store :: "(int \<times> nat) store_functions" where
  "example_store =
     \<lparr>id_of_text = (\<lambda>s. in_range (- (2 ^ 31)) (2 ^ 31 - 1) (parse_decimal s)),
      int8_of_text = (\<lambda>s. in_range (- (2 ^ 63)) (2 ^ 63 - 1) (parse_decimal s)),
      avg_numeric = (\<lambda>xs. (sum_list xs, length xs))\<rparr>"

definition example_rows :: "(int \<times> nat) reservation_result list" where
  "example_rows =
     [\<lparr>of_property = example_property 2 2, of_reservation = example_reservation 2 1 2 10,
       average_rating = (3, 1)\<rparr>,
      \<lparr>of_property = example_property 1 2, of_reservation = example_reservation 5 1 1 20,
       average_rating = (9, 2)\<rparr>]"

definition example_rows_unlimited :: "(int \<times> nat) reservation_result list" where
  "example_rows_unlimited =
     example_rows @
     [\<lparr>of_property = example_property 1 2, of_reservation = example_reservation 1 1 1 30,
       average_rating = (9, 2)\<rparr>]"

definition inactive_listing :: property_with_active where
  "inactive_listing =
     \<lparr>property.owner_id = 2, title = ''Loft'', description = ''Bright'',
      thumbnail_photo_url = ''a.png'', cover_photo_url = ''b.png'', cost_per_night = 12000,
      street = ''2 Oak Ave'', property.city = ''Toronto'', province = ''ON'', post_code = ''M5V'',
      country = ''Canada'', parking_spaces = 0, number_of_bathrooms = 1,
      number_of_bedrooms = 1, active = False\<rparr>"

definition inserted_listing :: property_row where
  "inserted_listing =
     \<lparr>p_id = 4, p_owner_id = 2, p_title = ''Loft'', p_description = ''Bright'',
      p_thumbnail_photo_url = ''a.png'', p_cover_photo_url = ''b.png'', p_cost_per_night = 12000,
      p_street = ''2 Oak Ave'', p_city = ''Toronto'', p_province = ''ON'', p_post_code = ''M5V'',
      p_country = ''Canada'', p_parking_spaces = 0, p_number_of_bathrooms = 1,
      p_number_of_bedrooms = 1, p_active = True\<rparr>"

definition new_user :: user where
  "new_user = \<lparr>name = ''A'', email = ''a@x.com'', password = ''p''\<rparr>"

definition known_user :: user where
  "known_user = \<lparr>name = ''Bobby'', email = ''bob@x.com'', password = ''q''\<rparr>"

section \<open>Properties of the query builder\<close>

lemma query_structure:
  "getAllProperties_query rt options limit =
     (base_clause @ render_filters 0 (active_filters rt options)
        @ final_clause (Suc (length (active_filters rt options))),
      map (\<lambda>(x, t, v). v) (active_filters rt options) @ [default_limit limit])"
  by (simp add: getAllProperties_query_def active_filters_def option_filters_def Let_def)

lemma lt10_cases: "d < 10 \<Longrightarrow> d \<in> {0, 1, 2, 3, 4, 5, 6, 7, 8, 9::nat}"
  by auto

lemma digit_char_props:
  assumes "d < 10"
  shows "digit_value (digit_char d) = d" and "is_digit (digit_char d)" and "digit_char d \<noteq> CHR ''$''"
  using lt10_cases [OF assms]
  by (auto simp: digit_value_def digit_char_def is_digit_def)

lemma show_nat_digits: "list_all is_digit (show_nat n)"
proof (induction n rule: show_nat.induct)
  case (1 n)
  show ?case
  proof (cases "n < 10")
    case True
    then show ?thesis by (subst show_nat.simps) (simp add: digit_char_props)
  next
    case False
    with 1 show ?thesis by (subst show_nat.simps) (simp add: digit_char_props)
  qed
qed

lemma digits_value_snoc: "digits_value (ds @ [d]) = 10 * digits_value ds + digit_value d"
  by (simp add: digits_value_def)

lemma digits_value_show_nat: "digits_value (show_nat n) = n"
proof (induction n rule: show_nat.induct)
  case (1 n)
  show ?case
  proof (cases "n < 10")
    case True
    then show ?thesis by (subst show_nat.simps) (simp add: digits_value_def digit_char_props)
  next
    case False
    with 1 show ?thesis
      by (subst show_nat.simps) (simp add: digits_value_snoc digit_char_props)
  qed
qed

lemma placeholders_skip: "CHR ''$'' \<notin> set xs \<Longrightarrow> placeholders (xs @ ys) = placeholders ys"
  by (induction xs) auto

lemma is_digit_not_dollar: "is_digit c \<Longrightarrow> c \<noteq> CHR ''$''"
  by (auto simp: is_digit_def)

lemma show_nat_no_dollar: "CHR ''$'' \<notin> set (show_nat n)"
proof
  assume "CHR ''$'' \<in> set (show_nat n)"
  with show_nat_digits [of n] have "is_digit CHR ''$''"
    unfolding list_all_iff by blast
  then show False
    using is_digit_not_dollar by blast
qed

lemma takeWhile_digits:
  "list_all is_digit ds \<Longrightarrow> \<not> is_digit c \<Longrightarrow> takeWhile is_digit (ds @ c # rest) = ds"
  by (induction ds) auto

lemma placeholders_index:
  assumes "\<not> is_digit c" and "c \<noteq> CHR ''$''"
  shows "placeholders (CHR ''$'' # show_nat n @ c # rest) = n # placeholders rest"
proof -
  have "takeWhile is_digit (show_nat n @ c # rest) = show_nat n"
    using assms(1) by (simp add: takeWhile_digits show_nat_digits)
  moreover have "placeholders (show_nat n @ c # rest) = placeholders (c # rest)"
    by (rule placeholders_skip) (rule show_nat_no_dollar)
  ultimately show ?thesis
    using assms(2) by (simp add: digits_value_show_nat)
qed

lemma placeholders_render:
  "list_all (\<lambda>(x, t, v). filter_text_ok t) fs \<Longrightarrow>
   placeholders (render_filters k fs @ rest) = [Suc k ..< Suc k + length fs] @ placeholders rest"
proof (induction fs arbitrary: k)
  case Nil
  then show ?case by simp
next
  case (Cons f fs)
  obtain x t v where f: "f = (x, t, v)" by (cases f)
  from Cons.prems f have ok: "filter_text_ok t" and rest: "list_all (\<lambda>(x, t, v). filter_text_ok t) fs"
    by simp_all
  from ok obtain p where t: "t = p @ [CHR ''$'']" and nd: "CHR ''$'' \<notin> set p"
    unfolding filter_text_ok_def by (metis append_butlast_last_id)
  have "placeholders (render_filters k (f # fs) @ rest)
      = placeholders (p @ CHR ''$'' # show_nat (Suc k) @ CHR '' '' # render_filters (Suc k) fs @ rest)"
    by (simp add: f t)
  also have "\<dots> = placeholders (CHR ''$'' # show_nat (Suc k) @ CHR '' '' # render_filters (Suc k) fs @ rest)"
    by (rule placeholders_skip) (rule nd)
  also have "\<dots> = Suc k # placeholders (render_filters (Suc k) fs @ rest)"
    by (rule placeholders_index) (simp_all add: is_digit_def)
  also have "\<dots> = Suc k # [Suc (Suc k) ..< Suc (Suc k) + length fs] @ placeholders rest"
    by (simp add: Cons.IH [OF rest])
  also have "\<dots> = [Suc k ..< Suc k + length (f # fs)] @ placeholders rest"
    by (subst (2) upt_conv_Cons) simp_all
  finally show ?case .
qed

lemma placeholders_final: "placeholders (final_clause n) = [n]"
proof -
  have "placeholders (final_clause n) = placeholders (CHR ''$'' # show_nat n @ CHR '';'' # ''\<newline>  '')"
    unfolding final_clause_def
    by (simp add: placeholders_skip)
  also have "\<dots> = n # placeholders ''\<newline>  ''"
    by (rule placeholders_index) (simp_all add: is_digit_def)
  finally show ?thesis by simp
qed

lemma placeholders_base: "placeholders (base_clause @ rest) = placeholders rest"
  by (rule placeholders_skip) (simp add: base_clause_def)

lemma option_filters_ok: "list_all (\<lambda>(x, t, v). filter_text_ok t) (option_filters rt options)"
  by (simp add: option_filters_def filter_text_ok_def)

lemma active_filters_ok: "list_all (\<lambda>(x, t, v). filter_text_ok t) (active_filters rt options)"
  using option_filters_ok [of rt options] unfolding active_filters_def list_all_iff by auto

lemma placeholders_query:
  "placeholders (fst (getAllProperties_query rt options limit)) =
     [1 ..< Suc (length (snd (getAllProperties_query rt options limit)))]"
  by (simp add: query_structure placeholders_base placeholders_render [OF active_filters_ok]
      placeholders_final)

subsection \<open>The statement and the parameters, written out\<close>

lemma statement_explicit:
  "fst (getAllProperties_query rt options limit) =
     ''\<newline>  SELECT properties.*, avg(property_reviews.rating) as average_rating'' @
     ''\<newline>  FROM properties'' @
     ''\<newline>  LEFT JOIN property_reviews ON properties.id = property_id'' @
     ''\<newline>  WHERE 1=1'' @
     ''\<newline>  '' @
     (if ToBoolean (city options) then ''AND city ILIKE $'' @ show_nat 1 @ '' '' else []) @
     (if ToBoolean (owner_id options) then ''AND owner_id = $'' @ show_nat (Suc (length (filter ToBoolean [city options]))) @ '' '' else []) @
     (if ToBoolean (minimum_price_per_night options) then ''AND cost_per_night >= $'' @ show_nat (Suc (length (filter ToBoolean [city options, owner_id options]))) @ '' '' else []) @
     (if ToBoolean (maximum_price_per_night options) then ''AND cost_per_night <= $'' @ show_nat (Suc (length (filter ToBoolean [city options, owner_id options, minimum_price_per_night options]))) @ '' '' else []) @
     (if ToBoolean (minimum_rating options) then ''AND property_reviews.rating >= $'' @ show_nat (Suc (length (filter ToBoolean [city options, owner_id options, minimum_price_per_night options, maximum_price_per_night options]))) @ '' '' else []) @
     ''\<newline>  GROUP BY properties.id'' @
     ''\<newline>  ORDER BY cost_per_night'' @
     ''\<newline>  LIMIT $'' @ show_nat (Suc (length (filter ToBoolean [city options, owner_id options, minimum_price_per_night options, maximum_price_per_night options, minimum_rating options]))) @ '';'' @
     ''\<newline>  ''"
  by (simp add: getAllProperties_query_def Let_def base_clause_def final_clause_def)

lemma parameters_explicit:
  "snd (getAllProperties_query rt options limit) =
     (if ToBoolean (city options) then [JStr (''%'' @ ToString rt (city options) @ ''%'')] else []) @
     (if ToBoolean (owner_id options) then [JNum (ToNumber rt (owner_id options))] else []) @
     (if ToBoolean (minimum_price_per_night options) then [JNum (js_mul (Finite False 100) (ToNumber rt (minimum_price_per_night options)))] else []) @
     (if ToBoolean (maximum_price_per_night options) then [JNum (js_mul (Finite False 100) (ToNumber rt (maximum_price_per_night options)))] else []) @
     (if ToBoolean (minimum_rating options) then [JNum (ToNumber rt (minimum_rating options))] else []) @
     [(if limit = JUndefined then JNum (Finite False 10) else limit)]"
  by (simp add: getAllProperties_query_def Let_def default_limit_def js_int_def)

lemma show_nat_small: "n < 10 \<Longrightarrow> show_nat n = [digit_char n]"
  by (simp add: show_nat.simps)

subsection \<open>The WHERE clause\<close>

text \<open>
  C1, as stated, with an option present whenever its key holds a value: the statement
  would carry the predicate of every present option. It does not: for an options
  object whose city is the empty string the city predicate is missing.
\<close>

theorem present_city_without_predicate:
  "fst (getAllProperties_query example_runtime empty_city_options JUndefined) \<noteq>
     base_clause @ render_filters 0 (present_filters example_runtime empty_city_options)
       @ final_clause (Suc (length (present_filters example_runtime empty_city_options)))"
  by (simp add: query_structure active_filters_def present_filters_def option_filters_def
      present_def empty_city_options_def final_clause_def)

text \<open>
  C1, amended: for every options object and limit, the pool is asked once, with the one
  statement that the builder yields. The statement selects all property columns and
  the average rating over a left join to the reviews, starts its conditions with
  \<^verbatim>\<open>1=1\<close>, and carries, in the order city, owner, minimum price, maximum price,
  minimum rating, the predicate of each option whose value is truthy (passes the test
  \<^verbatim>\<open>if (options.key)\<close>), each introduced by \<^verbatim>\<open>AND\<close>; an option that is absent or falsy
  adds nothing.
\<close>

theorem where_clause_of_truthy_options:
  "getAllProperties rt pool options limit s = pool (getAllProperties_query rt options limit) s
   \<and> fst (getAllProperties_query rt options limit) =
     ''\<newline>  SELECT properties.*, avg(property_reviews.rating) as average_rating'' @
     ''\<newline>  FROM properties'' @
     ''\<newline>  LEFT JOIN property_reviews ON properties.id = property_id'' @
     ''\<newline>  WHERE 1=1'' @
     ''\<newline>  '' @
     (if ToBoolean (city options) then ''AND city ILIKE $'' @ show_nat 1 @ '' '' else []) @
     (if ToBoolean (owner_id options) then ''AND owner_id = $'' @ show_nat (Suc (length (filter ToBoolean [city options]))) @ '' '' else []) @
     (if ToBoolean (minimum_price_per_night options) then ''AND cost_per_night >= $'' @ show_nat (Suc (length (filter ToBoolean [city options, owner_id options]))) @ '' '' else []) @
     (if ToBoolean (maximum_price_per_night options) then ''AND cost_per_night <= $'' @ show_nat (Suc (length (filter ToBoolean [city options, owner_id options, minimum_price_per_night options]))) @ '' '' else []) @
     (if ToBoolean (minimum_rating options) then ''AND property_reviews.rating >= $'' @ show_nat (Suc (length (filter ToBoolean [city options, owner_id options, minimum_price_per_night options, maximum_price_per_night options]))) @ '' '' else []) @
     ''\<newline>  GROUP BY properties.id'' @
     ''\<newline>  ORDER BY cost_per_night'' @
     ''\<newline>  LIMIT $'' @ show_nat (Suc (length (filter ToBoolean [city options, owner_id options, minimum_price_per_night options, maximum_price_per_night options, minimum_rating options]))) @ '';'' @
     ''\<newline>  ''"
  by (simp only: getAllProperties_def statement_explicit simp_thms)

subsection \<open>Placeholders and parameters\<close>

text \<open>
  C3: the statement and the parameter list are built side by side: every predicate that
  is appended carries as its placeholder the number of parameters bound so far, its
  own included, so the placeholders of the statement, read from left to right, are
  \<^verbatim>\<open>$1\<close> up to \<^verbatim>\<open>$n\<close> for the \<open>n\<close> parameters, in the order of the predicates. The last
  parameter is the limit given by the caller (\<open>10\<close> when it is left out), and its
  placeholder stands in the \<^verbatim>\<open>LIMIT\<close> that follows \<^verbatim>\<open>GROUP BY properties.id\<close> and
  \<^verbatim>\<open>ORDER BY cost_per_night\<close>.
\<close>

theorem placeholders_follow_parameters:
  "getAllProperties_query rt options limit =
    (''\<newline>  SELECT properties.*, avg(property_reviews.rating) as average_rating'' @
     ''\<newline>  FROM properties'' @
     ''\<newline>  LEFT JOIN property_reviews ON properties.id = property_id'' @
     ''\<newline>  WHERE 1=1'' @
     ''\<newline>  '' @
     (if ToBoolean (city options) then ''AND city ILIKE $'' @ show_nat 1 @ '' '' else []) @
     (if ToBoolean (owner_id options) then ''AND owner_id = $'' @ show_nat (Suc (length (filter ToBoolean [city options]))) @ '' '' else []) @
     (if ToBoolean (minimum_price_per_night options) then ''AND cost_per_night >= $'' @ show_nat (Suc (length (filter ToBoolean [city options, owner_id options]))) @ '' '' else []) @
     (if ToBoolean (maximum_price_per_night options) then ''AND cost_per_night <= $'' @ show_nat (Suc (length (filter ToBoolean [city options, owner_id options, minimum_price_per_night options]))) @ '' '' else []) @
     (if ToBoolean (minimum_rating options) then ''AND property_reviews.rating >= $'' @ show_nat (Suc (length (filter ToBoolean [city options, owner_id options, minimum_price_per_night options, maximum_price_per_night options]))) @ '' '' else []) @
     ''\<newline>  GROUP BY properties.id'' @
     ''\<newline>  ORDER BY cost_per_night'' @
     ''\<newline>  LIMIT $'' @ show_nat (Suc (length (filter ToBoolean [city options, owner_id options, minimum_price_per_night options, maximum_price_per_night options, minimum_rating options]))) @ '';'' @
     ''\<newline>  '',
     (if ToBoolean (city options) then [JStr (''%'' @ ToString rt (city options) @ ''%'')] else []) @
     (if ToBoolean (owner_id options) then [JNum (ToNumber rt (owner_id options))] else []) @
     (if ToBoolean (minimum_price_per_night options) then [JNum (js_mul (Finite False 100) (ToNumber rt (minimum_price_per_night options)))] else []) @
     (if ToBoolean (maximum_price_per_night options) then [JNum (js_mul (Finite False 100) (ToNumber rt (maximum_price_per_night options)))] else []) @
     (if ToBoolean (minimum_rating options) then [JNum (ToNumber rt (minimum_rating options))] else []) @
     [(if limit = JUndefined then JNum (Finite False 10) else limit)])
   \<and> placeholders (fst (getAllProperties_query rt options limit)) =
       [1 ..< Suc (length (snd (getAllProperties_query rt options limit)))]
   \<and> last (snd (getAllProperties_query rt options limit)) = (if limit = JUndefined then JNum (Finite False 10) else limit)"
proof -
  have "getAllProperties_query rt options limit = (fst (getAllProperties_query rt options limit), snd (getAllProperties_query rt options limit))"
    by simp
  then have "getAllProperties_query rt options limit =
    (''\<newline>  SELECT properties.*, avg(property_reviews.rating) as average_rating'' @
     ''\<newline>  FROM properties'' @
     ''\<newline>  LEFT JOIN property_reviews ON properties.id = property_id'' @
     ''\<newline>  WHERE 1=1'' @
     ''\<newline>  '' @
     (if ToBoolean (city options) then ''AND city ILIKE $'' @ show_nat 1 @ '' '' else []) @
     (if ToBoolean (owner_id options) then ''AND owner_id = $'' @ show_nat (Suc (length (filter ToBoolean [city options]))) @ '' '' else []) @
     (if ToBoolean (minimum_price_per_night options) then ''AND cost_per_night >= $'' @ show_nat (Suc (length (filter ToBoolean [city options, owner_id options]))) @ '' '' else []) @
     (if ToBoolean (maximum_price_per_night options) then ''AND cost_per_night <= $'' @ show_nat (Suc (length (filter ToBoolean [city options, owner_id options, minimum_price_per_night options]))) @ '' '' else []) @
     (if ToBoolean (minimum_rating options) then ''AND property_reviews.rating >= $'' @ show_nat (Suc (length (filter ToBoolean [city options, owner_id options, minimum_price_per_night options, maximum_price_per_night options]))) @ '' '' else []) @
     ''\<newline>  GROUP BY properties.id'' @
     ''\<newline>  ORDER BY cost_per_night'' @
     ''\<newline>  LIMIT $'' @ show_nat (Suc (length (filter ToBoolean [city options, owner_id options, minimum_price_per_night options, maximum_price_per_night options, minimum_rating options]))) @ '';'' @
     ''\<newline>  '',
     (if ToBoolean (city options) then [JStr (''%'' @ ToString rt (city options) @ ''%'')] else []) @
     (if ToBoolean (owner_id options) then [JNum (ToNumber rt (owner_id options))] else []) @
     (if ToBoolean (minimum_price_per_night options) then [JNum (js_mul (Finite False 100) (ToNumber rt (minimum_price_per_night options)))] else []) @
     (if ToBoolean (maximum_price_per_night options) then [JNum (js_mul (Finite False 100) (ToNumber rt (maximum_price_per_night options)))] else []) @
     (if ToBoolean (minimum_rating options) then [JNum (ToNumber rt (minimum_rating options))] else []) @
     [(if limit = JUndefined then JNum (Finite False 10) else limit)])"
    by (simp only: statement_explicit parameters_explicit)
  moreover have "last (snd (getAllProperties_query rt options limit)) = (if limit = JUndefined then JNum (Finite False 10) else limit)"
    by (simp only: parameters_explicit append_assoc [symmetric] last_snoc)
  ultimately show ?thesis
    using placeholders_query [of rt options limit] by (intro conjI)
qed

subsection \<open>The rating filter\<close>

text \<open>
  C4, as stated: an options object in which \<^verbatim>\<open>minimum_rating\<close> is present with the value
  \<open>0\<close> would get a predicate on the rating. The code appends none: the statement is the
  one of an empty options object, and only the limit is bound.
\<close>

theorem zero_rating_without_predicate:
  "present (minimum_rating zero_rating_options)
   \<and> getAllProperties_query example_runtime zero_rating_options JUndefined =
     (''\<newline>  SELECT properties.*, avg(property_reviews.rating) as average_rating'' @
     ''\<newline>  FROM properties'' @
     ''\<newline>  LEFT JOIN property_reviews ON properties.id = property_id'' @
     ''\<newline>  WHERE 1=1'' @
     ''\<newline>  '' @
     ''\<newline>  GROUP BY properties.id'' @
     ''\<newline>  ORDER BY cost_per_night'' @
     ''\<newline>  LIMIT $'' @ ''1'' @ '';'' @
     ''\<newline>  '',
      [JNum (Finite False 10)])"
  by (simp add: present_def zero_rating_options_def getAllProperties_query_def Let_def
      base_clause_def final_clause_def default_limit_def js_int_def show_nat_small digit_char_def)

text \<open>
  C4, amended: when \<^verbatim>\<open>minimum_rating\<close> is truthy, the predicate appended for it is
  \<^verbatim>\<open>AND property_reviews.rating >= $k\<close>, bound to \<^verbatim>\<open>Number(minimum_rating)\<close>: it stands
  among the conditions after \<^verbatim>\<open>WHERE\<close> and before \<^verbatim>\<open>GROUP BY\<close>, so it constrains the
  rating of each joined review row and not the average computed per property.
\<close>

theorem minimum_rating_filters_review_rows:
  "ToBoolean (minimum_rating options) \<Longrightarrow>
   getAllProperties_query rt options limit =
    (''\<newline>  SELECT properties.*, avg(property_reviews.rating) as average_rating'' @
     ''\<newline>  FROM properties'' @
     ''\<newline>  LEFT JOIN property_reviews ON properties.id = property_id'' @
     ''\<newline>  WHERE 1=1'' @
     ''\<newline>  '' @
     (if ToBoolean (city options) then ''AND city ILIKE $'' @ show_nat 1 @ '' '' else []) @
     (if ToBoolean (owner_id options) then ''AND owner_id = $'' @ show_nat (Suc (length (filter ToBoolean [city options]))) @ '' '' else []) @
     (if ToBoolean (minimum_price_per_night options) then ''AND cost_per_night >= $'' @ show_nat (Suc (length (filter ToBoolean [city options, owner_id options]))) @ '' '' else []) @
     (if ToBoolean (maximum_price_per_night options) then ''AND cost_per_night <= $'' @ show_nat (Suc (length (filter ToBoolean [city options, owner_id options, minimum_price_per_night options]))) @ '' '' else []) @
     (''AND property_reviews.rating >= $'' @ show_nat (Suc (length (filter ToBoolean [city options, owner_id options, minimum_price_per_night options, maximum_price_per_night options]))) @ '' '') @
     ''\<newline>  GROUP BY properties.id'' @
     ''\<newline>  ORDER BY cost_per_night'' @
     ''\<newline>  LIMIT $'' @ show_nat (Suc (length (filter ToBoolean [city options, owner_id options, minimum_price_per_night options, maximum_price_per_night options, minimum_rating options]))) @ '';'' @
     ''\<newline>  '',
     (if ToBoolean (city options) then [JStr (''%'' @ ToString rt (city options) @ ''%'')] else []) @
     (if ToBoolean (owner_id options) then [JNum (ToNumber rt (owner_id options))] else []) @
     (if ToBoolean (minimum_price_per_night options) then [JNum (js_mul (Finite False 100) (ToNumber rt (minimum_price_per_night options)))] else []) @
     (if ToBoolean (maximum_price_per_night options) then [JNum (js_mul (Finite False 100) (ToNumber rt (maximum_price_per_night options)))] else []) @
     [JNum (ToNumber rt (minimum_rating options))] @
     [(if limit = JUndefined then JNum (Finite False 10) else limit)])"
proof -
  assume r: "ToBoolean (minimum_rating options)"
  have "getAllProperties_query rt options limit = (fst (getAllProperties_query rt options limit), snd (getAllProperties_query rt options limit))"
    by simp
  then show ?thesis
    by (simp only: statement_explicit parameters_explicit r if_True)
qed

theorem minimum_rating_filters_review_rows_witness:
  "ToBoolean (minimum_rating four_rating_options)
   \<and> getAllProperties_query example_runtime four_rating_options JUndefined =
     (''\<newline>  SELECT properties.*, avg(property_reviews.rating) as average_rating'' @
     ''\<newline>  FROM properties'' @
     ''\<newline>  LEFT JOIN property_reviews ON properties.id = property_id'' @
     ''\<newline>  WHERE 1=1'' @
     ''\<newline>  '' @
     ''AND property_reviews.rating >= $1 '' @
     ''\<newline>  GROUP BY properties.id'' @
     ''\<newline>  ORDER BY cost_per_night'' @
     ''\<newline>  LIMIT $'' @ ''2'' @ '';'' @
     ''\<newline>  '',
      [JNum (Finite False 4), JNum (Finite False 10)])"
proof -
  have r: "ToBoolean (minimum_rating four_rating_options)"
    by (simp add: four_rating_options_def)
  have "getAllProperties_query example_runtime four_rating_options JUndefined =
     (''\<newline>  SELECT properties.*, avg(property_reviews.rating) as average_rating'' @
     ''\<newline>  FROM properties'' @
     ''\<newline>  LEFT JOIN property_reviews ON properties.id = property_id'' @
     ''\<newline>  WHERE 1=1'' @
     ''\<newline>  '' @
     ''AND property_reviews.rating >= $1 '' @
     ''\<newline>  GROUP BY properties.id'' @
     ''\<newline>  ORDER BY cost_per_night'' @
     ''\<newline>  LIMIT $'' @ ''2'' @ '';'' @
     ''\<newline>  '',
      [JNum (Finite False 4), JNum (Finite False 10)])"
    unfolding minimum_rating_filters_review_rows [OF r, of example_runtime JUndefined]
    by (simp add: four_rating_options_def show_nat_small digit_char_def)
  with r show ?thesis
    by (intro conjI)
qed

subsection \<open>Falsy values\<close>

text \<open>
  C9, as stated: a caller could not filter on the value \<open>0\<close>. The string \<^verbatim>\<open>"0"\<close> is truthy
  and \<^verbatim>\<open>Number("0")\<close> is \<open>0\<close>: with it the owner, the minimum price and the minimum
  rating are each bound to \<open>0\<close>.
\<close>

theorem string_zero_is_bound:
  "getAllProperties_query example_runtime string_zero_options JUndefined =
     (''\<newline>  SELECT properties.*, avg(property_reviews.rating) as average_rating'' @
     ''\<newline>  FROM properties'' @
     ''\<newline>  LEFT JOIN property_reviews ON properties.id = property_id'' @
     ''\<newline>  WHERE 1=1'' @
     ''\<newline>  '' @
     ''AND owner_id = $1 '' @
     ''AND cost_per_night >= $2 '' @
     ''AND property_reviews.rating >= $3 '' @
     ''\<newline>  GROUP BY properties.id'' @
     ''\<newline>  ORDER BY cost_per_night'' @
     ''\<newline>  LIMIT $'' @ ''4'' @ '';'' @
     ''\<newline>  '',
      [JNum (Finite False 0), JNum (Finite False 0), JNum (Finite False 0), JNum (Finite False 10)])"
  by (simp add: string_zero_options_def getAllProperties_query_def Let_def base_clause_def
      final_clause_def default_limit_def js_int_def show_nat_small digit_char_def
      example_runtime_def is_digit_def digits_value_def digit_value_def round_double_def)

text \<open>
  C9, amended: an option whose value is falsy (the empty string, a zero, \<^verbatim>\<open>null\<close>,
  \<^verbatim>\<open>false\<close>, \<^verbatim>\<open>NaN\<close>) yields the same statement and the same parameters as the options
  object without that option: no predicate, no parameter. With all five options falsy
  the statement has no predicate at all and the limit is the only parameter. So the
  number \<open>0\<close> and the empty string cannot be passed as the value to filter on.
\<close>

theorem falsy_option_counts_as_absent:
  "(\<not> ToBoolean (city options) \<longrightarrow>
      getAllProperties_query rt options limit =
      getAllProperties_query rt (options\<lparr>city := JUndefined\<rparr>) limit)
   \<and> (\<not> ToBoolean (owner_id options) \<longrightarrow>
      getAllProperties_query rt options limit =
      getAllProperties_query rt (options\<lparr>owner_id := JUndefined\<rparr>) limit)
   \<and> (\<not> ToBoolean (minimum_price_per_night options) \<longrightarrow>
      getAllProperties_query rt options limit =
      getAllProperties_query rt (options\<lparr>minimum_price_per_night := JUndefined\<rparr>) limit)
   \<and> (\<not> ToBoolean (maximum_price_per_night options) \<longrightarrow>
      getAllProperties_query rt options limit =
      getAllProperties_query rt (options\<lparr>maximum_price_per_night := JUndefined\<rparr>) limit)
   \<and> (\<not> ToBoolean (minimum_rating options) \<longrightarrow>
      getAllProperties_query rt options limit =
      getAllProperties_query rt (options\<lparr>minimum_rating := JUndefined\<rparr>) limit)
   \<and> (\<not> ToBoolean (city options) \<and> \<not> ToBoolean (owner_id options) \<and> \<not> ToBoolean (minimum_price_per_night options) \<and> \<not> ToBoolean (maximum_price_per_night options) \<and> \<not> ToBoolean (minimum_rating options) \<longrightarrow>
      getAllProperties_query rt options limit =
        (''\<newline>  SELECT properties.*, avg(property_reviews.rating) as average_rating'' @
     ''\<newline>  FROM properties'' @
     ''\<newline>  LEFT JOIN property_reviews ON properties.id = property_id'' @
     ''\<newline>  WHERE 1=1'' @
     ''\<newline>  '' @
     ''\<newline>  GROUP BY properties.id'' @
     ''\<newline>  ORDER BY cost_per_night'' @
     ''\<newline>  LIMIT $'' @ ''1'' @ '';'' @
     ''\<newline>  '',
         [(if limit = JUndefined then JNum (Finite False 10) else limit)]))
   \<and> \<not> ToBoolean (JStr '''') \<and> \<not> ToBoolean (JNum (Finite False 0))
   \<and> \<not> ToBoolean (JNum (Finite True 0)) \<and> \<not> ToBoolean (JNum NaN)
   \<and> \<not> ToBoolean JNull \<and> \<not> ToBoolean (JBool False)"
proof -
  have eqs: "(\<not> ToBoolean (city options) \<longrightarrow>
      getAllProperties_query rt options limit =
      getAllProperties_query rt (options\<lparr>city := JUndefined\<rparr>) limit)"
    "(\<not> ToBoolean (owner_id options) \<longrightarrow>
      getAllProperties_query rt options limit =
      getAllProperties_query rt (options\<lparr>owner_id := JUndefined\<rparr>) limit)"
    "(\<not> ToBoolean (minimum_price_per_night options) \<longrightarrow>
      getAllProperties_query rt options limit =
      getAllProperties_query rt (options\<lparr>minimum_price_per_night := JUndefined\<rparr>) limit)"
    "(\<not> ToBoolean (maximum_price_per_night options) \<longrightarrow>
      getAllProperties_query rt options limit =
      getAllProperties_query rt (options\<lparr>maximum_price_per_night := JUndefined\<rparr>) limit)"
    "(\<not> ToBoolean (minimum_rating options) \<longrightarrow>
      getAllProperties_query rt options limit =
      getAllProperties_query rt (options\<lparr>minimum_rating := JUndefined\<rparr>) limit)"
    by (simp_all add: query_structure active_filters_def option_filters_def)
  have none: "\<not> ToBoolean (city options) \<and> \<not> ToBoolean (owner_id options) \<and> \<not> ToBoolean (minimum_price_per_night options) \<and> \<not> ToBoolean (maximum_price_per_night options) \<and> \<not> ToBoolean (minimum_rating options) \<longrightarrow>
      getAllProperties_query rt options limit =
        (''\<newline>  SELECT properties.*, avg(property_reviews.rating) as average_rating'' @
     ''\<newline>  FROM properties'' @
     ''\<newline>  LEFT JOIN property_reviews ON properties.id = property_id'' @
     ''\<newline>  WHERE 1=1'' @
     ''\<newline>  '' @
     ''\<newline>  GROUP BY properties.id'' @
     ''\<newline>  ORDER BY cost_per_night'' @
     ''\<newline>  LIMIT $'' @ ''1'' @ '';'' @
     ''\<newline>  '',
         [(if limit = JUndefined then JNum (Finite False 10) else limit)])"
  proof
    assume a: "\<not> ToBoolean (city options) \<and> \<not> ToBoolean (owner_id options) \<and> \<not> ToBoolean (minimum_price_per_night options) \<and> \<not> ToBoolean (maximum_price_per_night options) \<and> \<not> ToBoolean (minimum_rating options)"
    have "getAllProperties_query rt options limit =
        (fst (getAllProperties_query rt options limit), snd (getAllProperties_query rt options limit))"
      by simp
    then show "getAllProperties_query rt options limit =
        (''\<newline>  SELECT properties.*, avg(property_reviews.rating) as average_rating'' @
     ''\<newline>  FROM properties'' @
     ''\<newline>  LEFT JOIN property_reviews ON properties.id = property_id'' @
     ''\<newline>  WHERE 1=1'' @
     ''\<newline>  '' @
     ''\<newline>  GROUP BY properties.id'' @
     ''\<newline>  ORDER BY cost_per_night'' @
     ''\<newline>  LIMIT $'' @ ''1'' @ '';'' @
     ''\<newline>  '',
         [(if limit = JUndefined then JNum (Finite False 10) else limit)])"
      unfolding statement_explicit parameters_explicit using a
      by (simp add: show_nat_small digit_char_def)
  qed
  from eqs none show ?thesis
    by simp
qed

theorem falsy_option_counts_as_absent_witness:
  "\<not> ToBoolean (city falsy_options) \<and> \<not> ToBoolean (owner_id falsy_options)
   \<and> \<not> ToBoolean (minimum_price_per_night falsy_options)
   \<and> \<not> ToBoolean (maximum_price_per_night falsy_options)
   \<and> \<not> ToBoolean (minimum_rating falsy_options)
   \<and> getAllProperties_query example_runtime falsy_options (JNum (Finite False 5)) =
       getAllProperties_query example_runtime (falsy_options\<lparr>city := JUndefined\<rparr>)
         (JNum (Finite False 5))
   \<and> getAllProperties_query example_runtime falsy_options (JNum (Finite False 5)) =
       getAllProperties_query example_runtime (falsy_options\<lparr>owner_id := JUndefined\<rparr>)
         (JNum (Finite False 5))
   \<and> getAllProperties_query example_runtime falsy_options (JNum (Finite False 5)) =
       getAllProperties_query example_runtime (falsy_options\<lparr>minimum_price_per_night := JUndefined\<rparr>)
         (JNum (Finite False 5))
   \<and> getAllProperties_query example_runtime falsy_options (JNum (Finite False 5)) =
       getAllProperties_query example_runtime (falsy_options\<lparr>maximum_price_per_night := JUndefined\<rparr>)
         (JNum (Finite False 5))
   \<and> getAllProperties_query example_runtime falsy_options (JNum (Finite False 5)) =
       getAllProperties_query example_runtime (falsy_options\<lparr>minimum_rating := JUndefined\<rparr>)
         (JNum (Finite False 5))
   \<and> getAllProperties_query example_runtime falsy_options (JNum (Finite False 5)) =
        (''\<newline>  SELECT properties.*, avg(property_reviews.rating) as average_rating'' @
     ''\<newline>  FROM properties'' @
     ''\<newline>  LEFT JOIN property_reviews ON properties.id = property_id'' @
     ''\<newline>  WHERE 1=1'' @
     ''\<newline>  '' @
     ''\<newline>  GROUP BY properties.id'' @
     ''\<newline>  ORDER BY cost_per_night'' @
     ''\<newline>  LIMIT $'' @ ''1'' @ '';'' @
     ''\<newline>  '',
         [JNum (Finite False 5)])"
proof -
  have falsy: "\<not> ToBoolean (city falsy_options)" "\<not> ToBoolean (owner_id falsy_options)"
    "\<not> ToBoolean (minimum_price_per_night falsy_options)"
    "\<not> ToBoolean (maximum_price_per_night falsy_options)"
    "\<not> ToBoolean (minimum_rating falsy_options)"
    by (simp_all add: falsy_options_def js_int_def)
  have lim: "(if JNum (Finite False 5) = JUndefined then JNum (Finite False 10)
      else JNum (Finite False 5)) = JNum (Finite False 5)"
    by simp
  note t = falsy_option_counts_as_absent [of falsy_options example_runtime "JNum (Finite False 5)",
      unfolded lim]
  from t falsy show ?thesis
    by blast
qed

subsection \<open>Price filters\<close>

text \<open>
  A whole number of magnitude up to \<open>2 ^ 53\<close> is a double, so the product of \<open>100\<close> and
  a whole number is exact as long as it stays within that magnitude.
\<close>

lemma round_half_even_of_int: "round_half_even (of_int j) = j"
  by (simp add: round_half_even_def)

lemma floor_log2_of_int: "0 < m \<Longrightarrow> floor_log2 (of_int m) = bitlen m - 1"
  by (simp add: floor_log2_def)

lemma round_double_small:
  assumes "0 < m" and "m < 2 ^ 53"
  shows "round_double s (of_int m) = Finite s (of_int m)"
proof -
  define e where "e = max (bitlen m - 1 - 52) (- 1074)"
  from assms(2) have "bitlen m \<le> 53"
    by (simp add: bitlen_le_iff_power)
  then have e: "e \<le> 0" by (simp add: e_def)
  define n where "n = nat (- e)"
  have p: "pow2 e = 1 / 2 ^ n"
    using e by (cases "e = 0") (simp_all add: pow2_def n_def)
  have q: "of_int m / pow2 e = (of_int (m * 2 ^ n) :: rat)"
    by (simp add: p)
  have r: "round_half_even (of_int m / pow2 e) = m * 2 ^ n"
    unfolding q by (rule round_half_even_of_int)
  have v: "of_int (m * 2 ^ n) * pow2 e = (of_int m :: rat)"
    by (simp add: p)
  have small: "\<not> (2 ^ 1024 \<le> (of_int m :: rat))"
  proof -
    have "(of_int m :: rat) < of_int (2 ^ 53)" using assms(2) by (simp only: of_int_less_iff)
    also have "\<dots> \<le> 2 ^ 1024" by simp
    finally show ?thesis by simp
  qed
  from assms(1) have nz: "(of_int m :: rat) \<noteq> 0" by simp
  show ?thesis
    unfolding round_double_def floor_log2_of_int [OF assms(1)] e_def [symmetric] Let_def r v
    using nz small by simp
qed

lemma round_double_top: "round_double s (of_int (2 ^ 53)) = Finite s (of_int (2 ^ 53))"
proof -
  have b: "bitlen (2 ^ 53) = 54"
    using bitlen_twopow_add_eq [of 0 53] by simp
  have fl: "floor_log2 (of_int (2 ^ 53)) = 53"
    using floor_log2_of_int [of "2 ^ 53"] b by simp
  have r: "round_half_even (of_int (2 ^ 53) / pow2 1) = 2 ^ 52"
  proof -
    have "(of_int (2 ^ 53) / pow2 1 :: rat) = of_int (2 ^ 52)" by (simp add: pow2_def)
    then show ?thesis by (simp only: round_half_even_of_int)
  qed
  show ?thesis
    unfolding round_double_def fl Let_def
    using r by (simp add: pow2_def)
qed

lemma round_double_int:
  assumes "0 \<le> m" and "m \<le> 2 ^ 53"
  shows "round_double s (of_int m) = Finite s (of_int m)"
proof -
  consider "m = 0" | "0 < m" "m < 2 ^ 53" | "m = 2 ^ 53"
    using assms by linarith
  then show ?thesis
  proof cases
    case 1
    then show ?thesis by (simp add: round_double_def)
  next
    case 2
    then show ?thesis by (rule round_double_small)
  next
    case 3
    then show ?thesis by (simp only: round_double_top)
  qed
qed

lemma js_mul_100_int:
  assumes "\<bar>100 * k\<bar> \<le> 2 ^ 53"
  shows "js_mul (js_int 100) (js_int k) = js_int (100 * k)"
proof -
  have "js_mul (js_int 100) (js_int k) = round_double (k < 0) (of_int (100 * \<bar>k\<bar>))"
    by (simp add: js_int_def)
  also have "\<dots> = Finite (k < 0) (of_int (100 * \<bar>k\<bar>))"
    using assms by (intro round_double_int) (simp_all add: abs_mult)
  also have "\<dots> = js_int (100 * k)"
    by (simp add: js_int_def abs_mult)
  finally show ?thesis .
qed

lemma render_filters_append:
  "render_filters k (xs @ ys) = render_filters k xs @ render_filters (k + length xs) ys"
  by (induction xs arbitrary: k) auto

lemma js_mul_rounds_beyond_bound:
  "js_mul (js_int 100) (js_int 9007199254740991) = js_int 900719925474099072"
  by code_simp

text \<open>
  C2, as stated: an options object whose maximum price is present with the value \<open>0\<close>
  would bind the parameter \<open>100 * 0\<close> and constrain the cost; the code binds nothing
  for it and appends no predicate. An options object whose minimum price is the whole
  number \<open>2 ^ 53 - 1\<close> would bind one hundred times that number; the product of the two
  doubles is rounded, and the parameter bound is another number.
\<close>

theorem price_not_always_times_100:
  "maximum_price_per_night zero_price_options = JNum (js_int 0)
   \<and> JNum (js_int (100 * 0)) \<notin> set (snd (getAllProperties_query example_runtime zero_price_options JUndefined))
   \<and> fst (getAllProperties_query example_runtime zero_price_options JUndefined) = base_clause @ final_clause 1
   \<and> minimum_price_per_night huge_price_options = JNum (js_int 9007199254740991)
   \<and> JNum (js_int (100 * 9007199254740991)) \<notin>
        set (snd (getAllProperties_query example_runtime huge_price_options JUndefined))"
proof -
  have zero: "snd (getAllProperties_query example_runtime zero_price_options JUndefined) = [JNum (js_int 10)]"
    "fst (getAllProperties_query example_runtime zero_price_options JUndefined) = base_clause @ final_clause 1"
    by (simp_all add: query_structure active_filters_def option_filters_def zero_price_options_def
        js_int_def default_limit_def)
  have huge: "snd (getAllProperties_query example_runtime huge_price_options JUndefined) =
      [JNum (js_int 900719925474099072), JNum (js_int 10)]"
    by (simp add: query_structure active_filters_def option_filters_def huge_price_options_def
        default_limit_def js_mul_rounds_beyond_bound) (simp add: js_int_def)
  show ?thesis
    unfolding zero huge
    by (simp add: zero_price_options_def huge_price_options_def) (simp add: js_int_def)
qed

text \<open>
  C2, amended: when \<^verbatim>\<open>minimum_price_per_night\<close> (respectively \<^verbatim>\<open>maximum_price_per_night\<close>)
  passes the test \<^verbatim>\<open>if (options.key)\<close> and \<^verbatim>\<open>Number\<close> of its value is a whole number \<open>v\<close>
  with \<open>\<bar>100 * v\<bar> \<le> 2 ^ 53\<close>, the parameter bound is exactly \<open>100 * v\<close> and the predicate
  appended is \<^verbatim>\<open>cost_per_night >= $k\<close> (respectively \<^verbatim>\<open><=\<close>) with \<open>k\<close> the position of that
  parameter. With the minimum \<open>50\<close> and the maximum \<open>100\<close> the bounds are \<open>5000\<close> and
  \<open>10000\<close>.
\<close>

theorem price_filters_in_minor_units:
  "(ToBoolean (minimum_price_per_night options)
      \<and> ToNumber rt (minimum_price_per_night options) = js_int v \<and> \<bar>100 * v\<bar> \<le> 2 ^ 53 \<longrightarrow>
    (\<exists>pre post ps qs.
        getAllProperties_query rt options limit =
          (pre @ ''AND cost_per_night >= $'' @ show_nat (Suc (length ps)) @ '' '' @ post,
           ps @ JNum (js_int (100 * v)) # qs)))
   \<and> (ToBoolean (maximum_price_per_night options)
      \<and> ToNumber rt (maximum_price_per_night options) = js_int w \<and> \<bar>100 * w\<bar> \<le> 2 ^ 53 \<longrightarrow>
    (\<exists>pre post ps qs.
        getAllProperties_query rt options limit =
          (pre @ ''AND cost_per_night <= $'' @ show_nat (Suc (length ps)) @ '' '' @ post,
           ps @ JNum (js_int (100 * w)) # qs)))"
proof (intro conjI impI)
  let ?tab = "option_filters rt options"
  let ?act = "\<lambda>fs. filter (\<lambda>(x, t, v). ToBoolean x) fs"
  let ?val = "map (\<lambda>(x, t, v). v)"
  {
    assume a: "ToBoolean (minimum_price_per_night options)
      \<and> ToNumber rt (minimum_price_per_night options) = js_int v \<and> \<bar>100 * v\<bar> \<le> 2 ^ 53"
    then have m: "js_mul (js_int 100) (ToNumber rt (minimum_price_per_night options)) = js_int (100 * v)"
      by (simp add: js_mul_100_int)
    let ?A = "?act (take 2 ?tab)" and ?B = "?act (drop 3 ?tab)"
    have split: "active_filters rt options = ?A @ (minimum_price_per_night options, ''AND cost_per_night >= $'', JNum (js_int (100 * v))) # ?B"
      using a m by (simp add: active_filters_def option_filters_def)
    show "\<exists>pre post ps qs.
        getAllProperties_query rt options limit =
          (pre @ ''AND cost_per_night >= $'' @ show_nat (Suc (length ps)) @ '' '' @ post,
           ps @ JNum (js_int (100 * v)) # qs)"
      apply (rule exI [of _ "base_clause @ render_filters 0 ?A"])
      apply (rule exI [of _ "render_filters (Suc (length ?A)) ?B @ final_clause (Suc (Suc (length ?A + length ?B)))"])
      apply (rule exI [of _ "?val ?A"])
      apply (rule exI [of _ "?val ?B @ [default_limit limit]"])
      apply (simp only: query_structure split)
      apply (simp add: render_filters_append)
      done
  }
  {
    assume a: "ToBoolean (maximum_price_per_night options)
      \<and> ToNumber rt (maximum_price_per_night options) = js_int w \<and> \<bar>100 * w\<bar> \<le> 2 ^ 53"
    then have m: "js_mul (js_int 100) (ToNumber rt (maximum_price_per_night options)) = js_int (100 * w)"
      by (simp add: js_mul_100_int)
    let ?A = "?act (take 3 ?tab)" and ?B = "?act (drop 4 ?tab)"
    have split: "active_filters rt options = ?A @ (maximum_price_per_night options, ''AND cost_per_night <= $'', JNum (js_int (100 * w))) # ?B"
      using a m by (simp add: active_filters_def option_filters_def)
    show "\<exists>pre post ps qs.
        getAllProperties_query rt options limit =
          (pre @ ''AND cost_per_night <= $'' @ show_nat (Suc (length ps)) @ '' '' @ post,
           ps @ JNum (js_int (100 * w)) # qs)"
      apply (rule exI [of _ "base_clause @ render_filters 0 ?A"])
      apply (rule exI [of _ "render_filters (Suc (length ?A)) ?B @ final_clause (Suc (Suc (length ?A + length ?B)))"])
      apply (rule exI [of _ "?val ?A"])
      apply (rule exI [of _ "?val ?B @ [default_limit limit]"])
      apply (simp only: query_structure split)
      apply (simp add: render_filters_append)
      done
  }
qed

theorem price_filters_in_minor_units_witness:
  "(ToBoolean (minimum_price_per_night price_range_options)
      \<and> ToNumber example_runtime (minimum_price_per_night price_range_options) = js_int 50
      \<and> \<bar>100 * 50\<bar> \<le> (2 :: int) ^ 53)
   \<and> (ToBoolean (maximum_price_per_night price_range_options)
      \<and> ToNumber example_runtime (maximum_price_per_night price_range_options) = js_int 100
      \<and> \<bar>100 * 100\<bar> \<le> (2 :: int) ^ 53)
   \<and> (\<exists>pre post ps qs.
        getAllProperties_query example_runtime price_range_options JUndefined =
          (pre @ ''AND cost_per_night >= $'' @ show_nat (Suc (length ps)) @ '' '' @ post,
           ps @ JNum (js_int (100 * 50)) # qs))
   \<and> (\<exists>pre post ps qs.
        getAllProperties_query example_runtime price_range_options JUndefined =
          (pre @ ''AND cost_per_night <= $'' @ show_nat (Suc (length ps)) @ '' '' @ post,
           ps @ JNum (js_int (100 * 100)) # qs))
   \<and> snd (getAllProperties_query example_runtime price_range_options JUndefined) =
        [JNum (js_int 5000), JNum (js_int 10000), JNum (js_int 10)]"
proof -
  have lo: "ToBoolean (minimum_price_per_night price_range_options)
      \<and> ToNumber example_runtime (minimum_price_per_night price_range_options) = js_int 50
      \<and> \<bar>100 * 50\<bar> \<le> (2 :: int) ^ 53"
    by (simp add: price_range_options_def js_int_def)
  have hi: "ToBoolean (maximum_price_per_night price_range_options)
      \<and> ToNumber example_runtime (maximum_price_per_night price_range_options) = js_int 100
      \<and> \<bar>100 * 100\<bar> \<le> (2 :: int) ^ 53"
    by (simp add: price_range_options_def js_int_def)
  have m: "js_mul (js_int 100) (js_int 50) = js_int 5000"
    "js_mul (js_int 100) (js_int 100) = js_int 10000"
    using js_mul_100_int [of 50] js_mul_100_int [of 100] by simp_all
  have params: "snd (getAllProperties_query example_runtime price_range_options JUndefined) =
        [JNum (js_int 5000), JNum (js_int 10000), JNum (js_int 10)]"
    by (simp add: query_structure active_filters_def option_filters_def price_range_options_def
        default_limit_def m) (simp add: js_int_def)
  from price_filters_in_minor_units [where options = price_range_options and rt = example_runtime
      and v = 50 and w = 100 and limit = JUndefined] lo hi params
  show ?thesis by blast
qed

section \<open>Properties of the operations on the store\<close>

lemma addProperty_statement_columns:
  "zip (items_after ''('' addProperty_statement) (items_after ''VALUES ('' addProperty_statement) =
     [(''owner_id'', ''$1''), (''title'', ''$2''), (''description'', ''$3''),
      (''thumbnail_photo_url'', ''$4''), (''cover_photo_url'', ''$5''), (''cost_per_night'', ''$6''),
      (''street'', ''$7''), (''city'', ''$8''), (''province'', ''$9''), (''post_code'', ''$10''),
      (''country'', ''$11''), (''parking_spaces'', ''$12''), (''number_of_bathrooms'', ''$13''),
      (''number_of_bedrooms'', ''$14''), (''active'', ''true'')]"
  by code_simp

lemma addUser_statement_columns:
  "zip (items_after ''('' addUser_statement) (items_after ''VALUES ('' addUser_statement) =
     [(''name'', ''$1''), (''email'', ''$2''), (''password'', ''$3'')]"
  by code_simp

lemma addUser_statement_returns_nothing: "returned addUser_statement row = []"
  by (simp add: returned_def addUser_statement_def)

lemma addProperty_statement_returns_row: "returned addProperty_statement row = [row]"
  by (simp add: returned_def addProperty_statement_def)

subsection \<open>User lookup\<close>






subsection \<open>User creation\<close>

text \<open>
  C8: \<^verbatim>\<open>addUser\<close> stores the name, the email and the password as they are given, with
  no check of its own before the insertion; the statement returns no row, so the value
  resolved is the absent one. An email already in the table is rejected by the store,
  and the rejection is what the caller gets; the tables stay as they were.
\<close>

theorem addUser_stores_as_given:
  "(email user \<notin> set (map u_email (users d)) \<longrightarrow>
      addUser d user =
        (Inr None,
         d\<lparr>users := users d @
             [\<lparr>u_id = fresh_id (map u_id (users d)), u_name = name user,
               u_email = email user, u_password = password user\<rparr>]\<rparr>))
   \<and> (email dup \<in> set (map u_email (users d)) \<longrightarrow>
      (\<exists>msg. addUser d dup = (Inl (StoreError msg), d)))
   \<and> zip (items_after ''('' addUser_statement) (items_after ''VALUES ('' addUser_statement) =
       [(''name'', ''$1''), (''email'', ''$2''), (''password'', ''$3'')]
   \<and> \<not> contains ''RETURNING'' addUser_statement"
proof -
  have "\<not> contains ''RETURNING'' addUser_statement"
    by (simp add: addUser_statement_def)
  then show ?thesis
    by (simp add: addUser_def insert_user_def email_unique_def promise_then_def rows0_def Let_def
        addUser_statement_returns_nothing addUser_statement_columns)
qed

lemma new_user_fresh: "email new_user \<notin> set (map u_email (users example_db))"
  by (simp add: new_user_def example_db_def)

lemma known_user_taken: "email known_user \<in> set (map u_email (users example_db))"
  by (simp add: known_user_def example_db_def)

lemma example_fresh_user_id: "fresh_id (map u_id (users example_db)) = 3"
  by (simp add: fresh_id_def example_db_def)

theorem addUser_stores_as_given_witness:
  "email new_user \<notin> set (map u_email (users example_db))
   \<and> email known_user \<in> set (map u_email (users example_db))
   \<and> addUser example_db new_user =
       (Inr None,
        example_db\<lparr>users := users example_db @
            [\<lparr>u_id = 3, u_name = ''A'', u_email = ''a@x.com'', u_password = ''p''\<rparr>]\<rparr>)
   \<and> (\<exists>msg. addUser example_db known_user = (Inl (StoreError msg), example_db))"
proof -
  note t = addUser_stores_as_given [of new_user example_db known_user]
  note ok = t [THEN conjunct1, THEN mp, OF new_user_fresh]
  note rej = t [THEN conjunct2, THEN conjunct1, THEN mp, OF known_user_taken]
  have row: "\<lparr>u_id = fresh_id (map u_id (users example_db)), u_name = name new_user,
        u_email = email new_user, u_password = password new_user\<rparr>
      = \<lparr>u_id = 3, u_name = ''A'', u_email = ''a@x.com'', u_password = ''p''\<rparr>"
    by (simp add: example_fresh_user_id new_user_def)
  from ok have ok': "addUser example_db new_user =
       (Inr None,
        example_db\<lparr>users := users example_db @
            [\<lparr>u_id = 3, u_name = ''A'', u_email = ''a@x.com'', u_password = ''p''\<rparr>]\<rparr>)"
    unfolding row .
  from new_user_fresh known_user_taken ok' rej show ?thesis
    by (intro conjI)
qed

subsection \<open>Property creation\<close>

text \<open>
  C7: for every argument, whatever else it carries, \<^verbatim>\<open>addProperty\<close> inserts the fourteen
  values read from it together with \<^verbatim>\<open>active = true\<close> and resolves to the inserted row:
  the row returned is active and holds the fourteen values. When the store rejects the
  row the rejection is passed on.
\<close>

theorem addProperty_active:
  "(property.owner_id p \<in> set (map u_id (users d)) \<longrightarrow>
      (\<exists>row. addProperty d p = (Inr (Some row), d\<lparr>properties := properties d @ [row]\<rparr>)
         \<and> p_active row
         \<and> p_owner_id row = property.owner_id p
         \<and> p_title row = property.title p
         \<and> p_description row = property.description p
         \<and> p_thumbnail_photo_url row = property.thumbnail_photo_url p
         \<and> p_cover_photo_url row = property.cover_photo_url p
         \<and> p_cost_per_night row = property.cost_per_night p
         \<and> p_street row = property.street p
         \<and> p_city row = property.city p
         \<and> p_province row = property.province p
         \<and> p_post_code row = property.post_code p
         \<and> p_country row = property.country p
         \<and> p_parking_spaces row = property.parking_spaces p
         \<and> p_number_of_bathrooms row = property.number_of_bathrooms p
         \<and> p_number_of_bedrooms row = property.number_of_bedrooms p))
   \<and> (property.owner_id q \<notin> set (map u_id (users d)) \<longrightarrow>
      (\<exists>msg. addProperty d q = (Inl (StoreError msg), d)))
   \<and> zip (items_after ''('' addProperty_statement) (items_after ''VALUES ('' addProperty_statement) =
       [(''owner_id'', ''$1''), (''title'', ''$2''), (''description'', ''$3''),
        (''thumbnail_photo_url'', ''$4''), (''cover_photo_url'', ''$5''), (''cost_per_night'', ''$6''),
        (''street'', ''$7''), (''city'', ''$8''), (''province'', ''$9''), (''post_code'', ''$10''),
        (''country'', ''$11''), (''parking_spaces'', ''$12''), (''number_of_bathrooms'', ''$13''),
        (''number_of_bedrooms'', ''$14''), (''active'', ''true'')]
   \<and> contains ''RETURNING *'' addProperty_statement"
proof -
  have "contains ''RETURNING *'' addProperty_statement"
    by (simp add: addProperty_statement_def)
  then show ?thesis
    by (simp add: addProperty_def insert_property_def owner_exists_def promise_then_def rows0_def
        Let_def addProperty_statement_returns_row addProperty_statement_columns)
qed

lemma inactive_listing_owner: "property.owner_id inactive_listing \<in> set (map u_id (users example_db))"
    by (simp add: inactive_listing_def example_db_def)
lemma orphan_listing_owner: "property.owner_id (inactive_listing\<lparr>property.owner_id := 9\<rparr>) \<notin> set (map u_id (users example_db))"
    by (simp add: example_db_def)
lemma example_fresh_property_id: "fresh_id (map p_id (properties example_db)) = 4"
  by (simp add: fresh_id_def example_db_def example_property_def)

lemma example_addProperty: "addProperty example_db inactive_listing =
       (Inr (Some inserted_listing),
        example_db\<lparr>properties := properties example_db @ [inserted_listing]\<rparr>)"
proof -
  have own: "owner_exists example_db 2" by (simp add: owner_exists_def example_db_def)
  show ?thesis
    unfolding addProperty_def insert_property_def Let_def
    by (simp add: own example_fresh_property_id promise_then_def rows0_def inactive_listing_def
        inserted_listing_def addProperty_statement_returns_row)
qed

theorem addProperty_active_witness:
  "property.owner_id inactive_listing \<in> set (map u_id (users example_db))
   \<and> property.owner_id (inactive_listing\<lparr>property.owner_id := 9\<rparr>) \<notin> set (map u_id (users example_db))
   \<and> \<not> active inactive_listing
   \<and> addProperty example_db inactive_listing =
       (Inr (Some inserted_listing),
        example_db\<lparr>properties := properties example_db @ [inserted_listing]\<rparr>)
   \<and> p_active inserted_listing
   \<and> (\<exists>msg. addProperty example_db (inactive_listing\<lparr>property.owner_id := 9\<rparr>) =
       (Inl (StoreError msg), example_db))"
proof -
  note t = addProperty_active [of inactive_listing example_db "inactive_listing\<lparr>property.owner_id := 9\<rparr>"]
  from t [THEN conjunct1, THEN mp, OF inactive_listing_owner]
  obtain row where row: "addProperty example_db inactive_listing =
        (Inr (Some row), example_db\<lparr>properties := properties example_db @ [row]\<rparr>)"
      and act: "p_active row"
    by (elim exE conjE) (rule that, assumption+)
  from row example_addProperty have "(Inr (Some row), example_db\<lparr>properties := properties example_db @ [row]\<rparr>) =
      (Inr (Some inserted_listing) :: property_row option promise,
       example_db\<lparr>properties := properties example_db @ [inserted_listing]\<rparr>)"
    by (rule trans [OF sym])
  then have "(Inr (Some row) :: property_row option promise) = Inr (Some inserted_listing)"
    by (rule Pair_inject)
  then have "row = inserted_listing" by simp
  with act have active: "p_active inserted_listing" by simp
  note rej = t [THEN conjunct2, THEN conjunct1, THEN mp, OF orphan_listing_owner]
  have more: "\<not> active inactive_listing"
    by (simp add: inactive_listing_def)
  from inactive_listing_owner orphan_listing_owner more example_addProperty active rej show ?thesis
    by (intro conjI)
qed

subsection \<open>Reservation listing\<close>

lemma joined_groups_member:
  assumes "x \<in> set (joined_groups st d guest)"
  shows "of_reservation x \<in> set (reservations d) \<and> of_property x \<in> set (properties d)
    \<and> r_property_id (of_reservation x) = p_id (of_property x)
    \<and> r_guest_id (of_reservation x) = guest
    \<and> ratings_of d (of_property x) \<noteq> []
    \<and> average_rating x = avg_numeric st (ratings_of d (of_property x))"
  using assms by (auto simp: joined_groups_def split: if_splits)

lemma ratings_of_nonempty:
  "ratings_of d p \<noteq> [] \<longleftrightarrow> (\<exists>v\<in>set (property_reviews d). v_property_id v = p_id p)"
  unfolding ratings_of_def by (simp add: filter_empty_conv) metis

text \<open>What every resolved answer of the statement satisfies.\<close>

lemma select_reservations_rows:
  assumes "select_reservations st d guest limit = Inr rows"
  shows "\<exists>g l. guest = Inr g \<and> limit = Inr l
      \<and> set rows \<subseteq> (case g of None \<Rightarrow> {} | Some i \<Rightarrow> set (joined_groups st d i))
      \<and> (case l of None \<Rightarrow> True | Some n \<Rightarrow> length rows \<le> n)
      \<and> sorted (map (\<lambda>x. r_start_date (of_reservation x)) rows)"
proof -
  let ?key = "\<lambda>x. r_start_date (of_reservation x)"
  from assms obtain g l where g: "guest = Inr g" and l: "limit = Inr l"
    by (auto simp: select_reservations_def split: sum.splits)
  define groups where "groups = (case g of None \<Rightarrow> [] | Some i \<Rightarrow> joined_groups st d i)"
  from assms g l have rows: "rows = (case l of None \<Rightarrow> sort_key ?key groups
      | Some n \<Rightarrow> take n (sort_key ?key groups))"
    unfolding groups_def by (auto simp: select_reservations_def Let_def)
  have sub: "set rows \<subseteq> set groups"
    unfolding rows using set_take_subset [of _ "sort_key ?key groups"]
    by (cases l) auto
  have len: "case l of None \<Rightarrow> True | Some n \<Rightarrow> length rows \<le> n"
    unfolding rows by (cases l) simp_all
  have "sorted (map ?key (sort_key ?key groups))"
    by (rule sorted_sort_key)
  moreover from this have "sorted (take n (map ?key (sort_key ?key groups)))" for n
    by (rule sorted_wrt_take)
  ultimately have srt: "sorted (map ?key rows)"
    unfolding rows by (cases l) (simp_all add: take_map)
  have "set groups = (case g of None \<Rightarrow> {} | Some i \<Rightarrow> set (joined_groups st d i))"
    by (cases g) (simp_all add: groups_def)
  with sub len srt g l show ?thesis by auto
qed

lemma getAllReservations_select:
  "getAllReservations rt st d guest limit =
     select_reservations st d (bind_guest rt st guest)
       (bind_limit rt st (if limit = JUndefined then JNum (Finite False 10) else limit))"
  by (simp add: getAllReservations_def promise_then_def js_int_def split: sum.splits)

lemma bind_guest_cases:
  "bind_guest rt st v = Inr g \<longleftrightarrow>
     ((v = JNull \<or> v = JUndefined) \<and> g = None)
     \<or> (v \<noteq> JNull \<and> v \<noteq> JUndefined \<and> g \<noteq> None \<and> id_of_text st (ToString rt v) = g)"
  by (auto simp: bind_guest_def bind_text_def split: option.splits)

lemma bind_limit_cases:
  "bind_limit rt st v = Inr l \<longleftrightarrow>
     ((v = JNull \<or> v = JUndefined) \<and> l = None)
     \<or> (v \<noteq> JNull \<and> v \<noteq> JUndefined
        \<and> (\<exists>n. int8_of_text st (ToString rt v) = Some n \<and> 0 \<le> n \<and> l = Some (nat n)))"
  by (auto simp: bind_limit_def bind_text_def split: option.splits)

lemma reservations_exclusion:
  assumes "set rows \<subseteq> (case gv of None \<Rightarrow> {} | Some i \<Rightarrow> set (joined_groups st d i))"
  shows "(\<forall>r\<in>set (reservations d).
              (\<forall>v\<in>set (property_reviews d). v_property_id v \<noteq> r_property_id r) \<longrightarrow>
              r \<notin> set (map of_reservation rows))"
proof (intro ballI impI notI)
  fix r
  assume none: "\<forall>v\<in>set (property_reviews d). v_property_id v \<noteq> r_property_id r"
    and "r \<in> set (map of_reservation rows)"
  then obtain x where x: "x \<in> set rows" "of_reservation x = r" by auto
  with assms obtain i where "x \<in> set (joined_groups st d i)"
    by (cases gv) auto
  from joined_groups_member [OF this] x
  have "r_property_id r = p_id (of_property x)" "ratings_of d (of_property x) \<noteq> []"
    by simp_all
  then obtain v where "v \<in> set (property_reviews d)" "v_property_id v = r_property_id r"
    unfolding ratings_of_nonempty by auto
  with none show False by blast
qed

text \<open>
  C5, as stated, for every limit: with the limit \<^verbatim>\<open>null\<close> the statement has no limit, and
  all three reservations of the guest that have a reviewed property are returned, more
  than any number read from the limit (\<^verbatim>\<open>Number(null)\<close> is \<open>0\<close>).
\<close>

theorem null_limit_returns_all:
  "getAllReservations example_runtime example_store example_db (JNum (Finite False 1)) JNull =
     Inr example_rows_unlimited
   \<and> length example_rows_unlimited = 3
   \<and> ToNumber example_runtime JNull = Finite False 0"
  by code_simp

text \<open>
  C5, amended: for every guest that the store reads as an id \<open>g\<close> and every limit that it
  reads as a whole number \<open>n\<close> that is not negative (\<open>10\<close> when the limit is left out),
  \<^verbatim>\<open>getAllReservations\<close> resolves to at most \<open>n\<close> records, each a reservation of the guest
  \<open>g\<close> with its property and the average rating of the property, in non-decreasing
  order of the start date; a reservation whose property has no review is not among
  them. Whenever the call resolves, the records are in that order, leave out every
  such reservation and belong to the guest given; their number is bounded unless the
  limit is \<^verbatim>\<open>null\<close>. A limit that the store cannot read as a 64-bit integer, or reads
  as a negative one, is rejected.
\<close>

theorem reservations_of_guest:
  "(guest \<noteq> JNull \<and> guest \<noteq> JUndefined \<and> id_of_text st (ToString rt guest) = Some g
      \<and> limit \<noteq> JNull
      \<and> int8_of_text st (ToString rt (if limit = JUndefined then JNum (Finite False 10) else limit)) = Some n
      \<and> 0 \<le> n \<longrightarrow>
      (\<exists>rows. getAllReservations rt st d guest limit = Inr rows
          \<and> int (length rows) \<le> n
          \<and> (\<forall>x\<in>set rows. r_guest_id (of_reservation x) = g
                \<and> of_reservation x \<in> set (reservations d)
                \<and> of_property x \<in> set (properties d)
                \<and> p_id (of_property x) = r_property_id (of_reservation x)
                \<and> average_rating x = avg_numeric st (ratings_of d (of_property x)))
          \<and> sorted (map (\<lambda>x. r_start_date (of_reservation x)) rows)
          \<and> (\<forall>r\<in>set (reservations d).
              (\<forall>v\<in>set (property_reviews d). v_property_id v \<noteq> r_property_id r) \<longrightarrow>
              r \<notin> set (map of_reservation rows))))
   \<and> (\<forall>rows. getAllReservations rt st d guest limit = Inr rows \<longrightarrow>
          sorted (map (\<lambda>x. r_start_date (of_reservation x)) rows)
        \<and> (\<forall>r\<in>set (reservations d).
              (\<forall>v\<in>set (property_reviews d). v_property_id v \<noteq> r_property_id r) \<longrightarrow>
              r \<notin> set (map of_reservation rows))
        \<and> (limit \<noteq> JNull \<longrightarrow>
              (\<exists>n. int8_of_text st (ToString rt (if limit = JUndefined then JNum (Finite False 10) else limit)) = Some n
                 \<and> 0 \<le> n \<and> int (length rows) \<le> n))
        \<and> (guest = JNull \<or> guest = JUndefined \<longrightarrow> rows = [])
        \<and> (\<forall>x\<in>set rows.
              id_of_text st (ToString rt guest) = Some (r_guest_id (of_reservation x))))
   \<and> (refused \<noteq> JNull \<and> refused \<noteq> JUndefined
      \<and> (int8_of_text st (ToString rt refused) = None
         \<or> (\<exists>n. int8_of_text st (ToString rt refused) = Some n \<and> n < 0)) \<longrightarrow>
      (\<exists>e. getAllReservations rt st d guest refused = Inl e))"
proof (intro conjI impI allI)
  fix rows
  assume res: "getAllReservations rt st d guest limit = Inr rows"
  then have "select_reservations st d (bind_guest rt st guest) (bind_limit rt st (if limit = JUndefined then JNum (Finite False 10) else limit)) = Inr rows"
    by (simp only: getAllReservations_select)
  from select_reservations_rows [OF this]
  obtain gv lv where gv: "bind_guest rt st guest = Inr gv"
    and lv: "bind_limit rt st (if limit = JUndefined then JNum (Finite False 10) else limit) = Inr lv"
    and sub: "set rows \<subseteq> (case gv of None \<Rightarrow> {} | Some i \<Rightarrow> set (joined_groups st d i))"
    and len: "case lv of None \<Rightarrow> True | Some k \<Rightarrow> length rows \<le> k"
    and srt: "sorted (map (\<lambda>x. r_start_date (of_reservation x)) rows)"
    by blast
  show "sorted (map (\<lambda>x. r_start_date (of_reservation x)) rows)" by (rule srt)
  show "(\<forall>r\<in>set (reservations d).
              (\<forall>v\<in>set (property_reviews d). v_property_id v \<noteq> r_property_id r) \<longrightarrow>
              r \<notin> set (map of_reservation rows))"
    by (rule reservations_exclusion [OF sub])
  show "\<exists>n. int8_of_text st (ToString rt (if limit = JUndefined then JNum (Finite False 10) else limit)) = Some n
                 \<and> 0 \<le> n \<and> int (length rows) \<le> n" if "limit \<noteq> JNull"
  proof -
    from that have "(if limit = JUndefined then JNum (Finite False 10) else limit) \<noteq> JNull" "(if limit = JUndefined then JNum (Finite False 10) else limit) \<noteq> JUndefined"
      by simp_all
    with lv obtain k where "int8_of_text st (ToString rt (if limit = JUndefined then JNum (Finite False 10) else limit)) = Some k"
      "0 \<le> k" "lv = Some (nat k)"
      unfolding bind_limit_cases by blast
    with len show ?thesis by auto
  qed
  show "rows = []" if "guest = JNull \<or> guest = JUndefined"
  proof -
    from that gv have "gv = None" unfolding bind_guest_cases by blast
    with sub show ?thesis by simp
  qed
  show "\<forall>x\<in>set rows.
              id_of_text st (ToString rt guest) = Some (r_guest_id (of_reservation x))"
  proof
    fix x assume x: "x \<in> set rows"
    with sub obtain i where i: "gv = Some i" "x \<in> set (joined_groups st d i)"
      by (cases gv) auto
    from gv i(1) have "id_of_text st (ToString rt guest) = Some i"
      unfolding bind_guest_cases by blast
    with joined_groups_member [OF i(2)] show
      "id_of_text st (ToString rt guest) = Some (r_guest_id (of_reservation x))"
      by simp
  qed
next
  assume h: "guest \<noteq> JNull \<and> guest \<noteq> JUndefined \<and> id_of_text st (ToString rt guest) = Some g
      \<and> limit \<noteq> JNull
      \<and> int8_of_text st (ToString rt (if limit = JUndefined then JNum (Finite False 10) else limit)) = Some n
      \<and> 0 \<le> n"
  then have gv: "bind_guest rt st guest = Inr (Some g)"
    by (simp add: bind_guest_cases)
  from h have "(if limit = JUndefined then JNum (Finite False 10) else limit) \<noteq> JNull" "(if limit = JUndefined then JNum (Finite False 10) else limit) \<noteq> JUndefined"
    by simp_all
  with h have lv: "bind_limit rt st (if limit = JUndefined then JNum (Finite False 10) else limit) = Inr (Some (nat n))"
    by (simp add: bind_limit_cases)
  obtain rows where res: "select_reservations st d (bind_guest rt st guest)
      (bind_limit rt st (if limit = JUndefined then JNum (Finite False 10) else limit)) = Inr rows"
    unfolding gv lv by (simp add: select_reservations_def Let_def)
  from select_reservations_rows [OF res] gv lv
  have sub: "set rows \<subseteq> set (joined_groups st d g)"
    and len: "length rows \<le> nat n"
    and srt: "sorted (map (\<lambda>x. r_start_date (of_reservation x)) rows)"
    by auto
  have sub': "set rows \<subseteq> (case Some g of None \<Rightarrow> {} | Some i \<Rightarrow> set (joined_groups st d i))"
    using sub by simp
  from h have "0 \<le> n" by blast
  with len have len': "int (length rows) \<le> n" by linarith
  have "getAllReservations rt st d guest limit = Inr rows"
    using res by (simp only: getAllReservations_select)
  moreover note len'
  moreover have "\<forall>x\<in>set rows. r_guest_id (of_reservation x) = g
                \<and> of_reservation x \<in> set (reservations d)
                \<and> of_property x \<in> set (properties d)
                \<and> p_id (of_property x) = r_property_id (of_reservation x)
                \<and> average_rating x = avg_numeric st (ratings_of d (of_property x))"
    using sub joined_groups_member [of _ st d g] by fastforce
  moreover note srt reservations_exclusion [OF sub']
  ultimately show "(\<exists>rows. getAllReservations rt st d guest limit = Inr rows
          \<and> int (length rows) \<le> n
          \<and> (\<forall>x\<in>set rows. r_guest_id (of_reservation x) = g
                \<and> of_reservation x \<in> set (reservations d)
                \<and> of_property x \<in> set (properties d)
                \<and> p_id (of_property x) = r_property_id (of_reservation x)
                \<and> average_rating x = avg_numeric st (ratings_of d (of_property x)))
          \<and> sorted (map (\<lambda>x. r_start_date (of_reservation x)) rows)
          \<and> (\<forall>r\<in>set (reservations d).
              (\<forall>v\<in>set (property_reviews d). v_property_id v \<noteq> r_property_id r) \<longrightarrow>
              r \<notin> set (map of_reservation rows)))"
    by blast
next
  assume h: "refused \<noteq> JNull \<and> refused \<noteq> JUndefined
      \<and> (int8_of_text st (ToString rt refused) = None
         \<or> (\<exists>n. int8_of_text st (ToString rt refused) = Some n \<and> n < 0))"
  then have "\<exists>e. bind_limit rt st refused = Inl e"
    by (auto simp: bind_limit_def bind_text_def)
  then obtain e where e: "bind_limit rt st refused = Inl e" ..
  from h have "(if refused = JUndefined then JNum (Finite False 10) else refused) = refused"
    by simp
  then have "getAllReservations rt st d guest refused =
      select_reservations st d (bind_guest rt st guest) (Inl e)"
    by (simp only: getAllReservations_select e)
  then show "(\<exists>e. getAllReservations rt st d guest refused = Inl e)"
    by (cases "bind_guest rt st guest") (simp_all add: select_reservations_def)
qed

lemma example_reservations:
  "getAllReservations example_runtime example_store example_db (JNum (Finite False 1)) (JNum (Finite False 2)) = Inr example_rows"
  by code_simp

lemma example_bindings:
  "id_of_text example_store (ToString example_runtime (JNum (Finite False 1))) = Some 1"
  "int8_of_text example_store (ToString example_runtime (JNum (Finite False 2))) = Some 2"
  by code_simp+

lemma example_refused_text:
  "int8_of_text example_store (ToString example_runtime (JStr ''9223372036854775808'')) = None"
  by (simp add: example_store_def in_range_def parse_decimal_def is_digit_def digits_value_def
      digit_value_def)

theorem reservations_of_guest_witness:
  "(JNum (Finite False 1)) \<noteq> JNull \<and> (JNum (Finite False 1)) \<noteq> JUndefined
   \<and> id_of_text example_store (ToString example_runtime (JNum (Finite False 1))) = Some 1
   \<and> (JNum (Finite False 2)) \<noteq> JNull
   \<and> int8_of_text example_store (ToString example_runtime (JNum (Finite False 2))) = Some 2
   \<and> (0 :: int) \<le> 2
   \<and> getAllReservations example_runtime example_store example_db (JNum (Finite False 1)) (JNum (Finite False 2)) = Inr example_rows
   \<and> int (length example_rows) \<le> 2
   \<and> map (\<lambda>x. r_guest_id (of_reservation x)) example_rows = [1, 1]
   \<and> sorted (map (\<lambda>x. r_start_date (of_reservation x)) example_rows)
   \<and> example_reservation 3 1 3 5 \<in> set (reservations example_db)
   \<and> list_all (\<lambda>v. v_property_id v \<noteq> r_property_id (example_reservation 3 1 3 5))
        (property_reviews example_db)
   \<and> example_reservation 3 1 3 5 \<notin> set (map of_reservation example_rows)
   \<and> (JStr ''9223372036854775808'') \<noteq> JNull \<and> (JStr ''9223372036854775808'') \<noteq> JUndefined
   \<and> int8_of_text example_store (ToString example_runtime (JStr ''9223372036854775808'')) = None
   \<and> (\<exists>e. getAllReservations example_runtime example_store example_db (JNum (Finite False 1)) (JStr ''9223372036854775808'') = Inl e)"
proof -
  note t = reservations_of_guest [where rt = example_runtime and st = example_store
      and d = example_db and guest = "(JNum (Finite False 1))" and limit = "(JNum (Finite False 2))" and g = 1 and n = 2
      and refused = "(JStr ''9223372036854775808'')"]
  have lim: "(if (JNum (Finite False 2)) = JUndefined then JNum (Finite False 10) else (JNum (Finite False 2))) = (JNum (Finite False 2))"
    by simp
  have h1: "(JNum (Finite False 1)) \<noteq> JNull \<and> (JNum (Finite False 1)) \<noteq> JUndefined
      \<and> id_of_text example_store (ToString example_runtime (JNum (Finite False 1))) = Some 1
      \<and> (JNum (Finite False 2)) \<noteq> JNull
      \<and> int8_of_text example_store (ToString example_runtime (JNum (Finite False 2))) = Some 2
      \<and> (0 :: int) \<le> 2"
    using example_bindings by simp
  from t [unfolded lim, THEN conjunct1, THEN mp, OF h1]
  obtain rows where r: "getAllReservations example_runtime example_store example_db (JNum (Finite False 1)) (JNum (Finite False 2)) = Inr rows"
    and len: "int (length rows) \<le> 2"
    and guest: "\<forall>x\<in>set rows. r_guest_id (of_reservation x) = 1
                \<and> of_reservation x \<in> set (reservations example_db)
                \<and> of_property x \<in> set (properties example_db)
                \<and> p_id (of_property x) = r_property_id (of_reservation x)
                \<and> average_rating x = avg_numeric example_store (ratings_of example_db (of_property x))"
    and srt: "sorted (map (\<lambda>x. r_start_date (of_reservation x)) rows)"
    and excl: "\<forall>r\<in>set (reservations example_db).
              (\<forall>v\<in>set (property_reviews example_db). v_property_id v \<noteq> r_property_id r) \<longrightarrow>
              r \<notin> set (map of_reservation rows)"
    by (elim exE conjE) (rule that, assumption+)
  from r example_reservations have rows: "rows = example_rows" by simp
  have r3: "example_reservation 3 1 3 5 \<in> set (reservations example_db)"
    by (simp add: example_db_def)
  have none: "list_all (\<lambda>v. v_property_id v \<noteq> r_property_id (example_reservation 3 1 3 5))
        (property_reviews example_db)"
    by (simp add: example_db_def example_reservation_def)
  from excl r3 none have out: "example_reservation 3 1 3 5 \<notin> set (map of_reservation example_rows)"
    unfolding list_all_iff rows by blast
  from guest have ids: "map (\<lambda>x. r_guest_id (of_reservation x)) example_rows = [1, 1]"
    unfolding rows by (simp add: example_rows_def)
  have h3: "(JStr ''9223372036854775808'') \<noteq> JNull \<and> (JStr ''9223372036854775808'') \<noteq> JUndefined
      \<and> (int8_of_text example_store (ToString example_runtime (JStr ''9223372036854775808'')) = None
         \<or> (\<exists>n. int8_of_text example_store (ToString example_runtime (JStr ''9223372036854775808'')) = Some n \<and> n < 0))"
    using example_refused_text by simp
  note rej = t [THEN conjunct2, THEN conjunct2, THEN mp, OF h3]
  from h1 r len srt have "(JNum (Finite False 1)) \<noteq> JNull" "(JNum (Finite False 1)) \<noteq> JUndefined"
    "id_of_text example_store (ToString example_runtime (JNum (Finite False 1))) = Some 1"
    "(JNum (Finite False 2)) \<noteq> JNull"
    "int8_of_text example_store (ToString example_runtime (JNum (Finite False 2))) = Some 2"
    "(0 :: int) \<le> 2"
    "getAllReservations example_runtime example_store example_db (JNum (Finite False 1)) (JNum (Finite False 2)) = Inr example_rows"
    "int (length example_rows) \<le> 2"
    "sorted (map (\<lambda>x. r_start_date (of_reservation x)) example_rows)"
    unfolding rows by simp_all
  moreover have "(JStr ''9223372036854775808'') \<noteq> JNull" "(JStr ''9223372036854775808'') \<noteq> JUndefined"
    by simp_all
  moreover note ids r3 none out example_refused_text rej
  ultimately show ?thesis
    by (intro conjI)
qed

end
